theory Spec2Isabelle
  imports Main "HOL-Library.Multiset" "HOL-Library.Sublist"
begin

section \<open>The HLS player of the dashboard (deploy/frontend/js/kvs-player.js)\<close>

text \<open>
  A JavaScript property that holds a reference is in one of three states: it was never
  assigned (\<open>undefined\<close>), it holds \<open>null\<close>, or it holds an object. Only an object
  is truthy.
\<close>

datatype 'a js_ref = Undefined | Null | Obj 'a

fun truthy :: "'a js_ref \<Rightarrow> bool" where
  "truthy (Obj _) = True"
| "truthy _ = False"

text \<open>
  The handle that \<open>setInterval\<close> returns. A browser hands out integers greater than
  zero, so every handle is truthy; \<open>Timer n\<close> stands for the handle numbered \<open>n\<close>.
\<close>

datatype timer = Timer nat

text \<open>The part of the \<open>video\<close> element the scripts read and write.\<close>

record video_element =
  video_src :: string
  video_paused :: bool
  video_display :: string
  video_muted :: bool

text \<open>An HLS.js instance: its options, the loaded source and the registered handlers.\<close>

record hls_obj =
  lowLatencyMode :: bool
  hls_source :: "string option"
  media_attached :: bool
  handlers :: "string list"

record player_config =
  streamName :: string
  region :: string
  refreshInterval :: nat

text \<open>The constructor's \<open>config\<close> argument: each option is present or missing.\<close>

record player_options =
  opt_streamName :: "string option"
  opt_region :: "string option"
  opt_refreshInterval :: "nat option"

text \<open>
  The fields of a \<open>KVSPlayer\<close> object. \<open>hlsUrl\<close> and \<open>refreshTimer\<close> are \<open>null\<close>
  (\<open>None\<close>) or hold a value; \<open>hls\<close> is the only field the constructor does not assign.
\<close>

record KVSPlayer =
  videoElement :: video_element
  config :: player_config
  hlsUrl :: "string option"
  refreshTimer :: "timer option"
  isPlaying :: bool
  hls :: "hls_obj js_ref"

text \<open>What a script does to the world outside its own state, in the order it happens.\<close>

datatype alert_msg =
    Alert_both_times_required
  | Alert_end_must_follow_start
  | Alert_start_in_future
  | Alert_time_range_failed string

datatype ui_element =
    StreamMessage | ApplyTimeRangeBtn | Placeholder | VideoElement | StatusBadge
  | StreamModeDisplay | StreamResolution | ConnectionTime

datatype effect =
    ConsoleLog string
  | ConsoleError string
  | Alert alert_msg
  | Fetch string
  | HlsDestroy
  | HlsLoadSource string
  | HlsAttachMedia
  | HlsOn string
  | VideoPause
  | VideoPlay
  | ClearInterval timer
  | SetText ui_element string
  | SetDisabled ui_element bool
  | SetDisplay ui_element string
  | SetClassName ui_element string

text \<open>
  \<open>constructor(videoElement, config = {})\<close>: a default applies to a missing option
  (the spread \<open>...config\<close> puts every option that is present back, whatever its
  value). The constructor assigns \<open>hlsUrl\<close>, \<open>refreshTimer\<close> and \<open>isPlaying\<close>; it
  never assigns \<open>hls\<close>, which is therefore \<open>undefined\<close> on a new player.
\<close>

definition new_KVSPlayer :: "video_element \<Rightarrow> player_options \<Rightarrow> KVSPlayer" where
  "new_KVSPlayer v c =
     \<lparr> videoElement = v,
       config = \<lparr> streamName = (case opt_streamName c of None \<Rightarrow> ''dockerStream'' | Some s \<Rightarrow> s),
                  region = (case opt_region c of None \<Rightarrow> ''ap-northeast-1'' | Some r \<Rightarrow> r),
                  refreshInterval = (case opt_refreshInterval c of None \<Rightarrow> 60000 | Some n \<Rightarrow> n) \<rparr>,
       hlsUrl = None,
       refreshTimer = None,
       isPlaying = False,
       hls = Undefined \<rparr>"

text \<open>
  \<open>stop()\<close>, statement by statement: destroy and drop the HLS.js handle if there is
  one, pause the video and clear its source, clear the refresh timer if there is one,
  and record that nothing is playing. The result is the player and the effects.
\<close>

definition stop :: "KVSPlayer \<Rightarrow> KVSPlayer \<times> effect list" where
  "stop p =
     (let (p1, e1) = (if truthy (hls p) then (p\<lparr>hls := Null\<rparr>, [HlsDestroy]) else (p, []));
          p2 = p1\<lparr>videoElement := (videoElement p1)\<lparr>video_paused := True, video_src := []\<rparr>\<rparr>;
          (p3, e3) = (case refreshTimer p2 of
                        Some t \<Rightarrow> (p2\<lparr>refreshTimer := None\<rparr>, [ClearInterval t])
                      | None \<Rightarrow> (p2, []))
      in (p3\<lparr>isPlaying := False\<rparr>,
          [ConsoleLog ''Stopping KVS stream''] @ e1 @ [VideoPause] @ e3))"

text \<open>The getter \<open>playing\<close>.\<close>

definition playing :: "KVSPlayer \<Rightarrow> bool" where
  "playing p = isPlaying p"

text \<open>A hidden, muted video element, and a constructor call that passes no option.\<close>

definition example_video :: video_element where
  "example_video =
     \<lparr> video_src = [], video_paused = True, video_display = ''none'', video_muted = True \<rparr>"

definition no_options :: player_options where
  "no_options = \<lparr> opt_streamName = None, opt_region = None, opt_refreshInterval = None \<rparr>"

section \<open>The clip list of the dashboard (deploy/frontend/js/app.js)\<close>

text \<open>
  An entry of the list the API returns. \<open>last_modified\<close> holds the time value of
  \<open>new Date(video.last_modified)\<close> in milliseconds and \<open>size_bytes\<close> the number
  \<open>video.size\<close>; both are integers below \<open>2^53\<close>, on which the subtraction of
  JavaScript numbers has the sign of the integer difference.
\<close>

record video =
  key :: string
  last_modified :: int
  size_bytes :: int

record app_state =
  videos :: "video list"
  filteredVideos :: "video list"
  selectedVideo :: "video option"
  isLoading :: bool
  streamStatus :: string

text \<open>\<open>String.prototype.toLowerCase\<close> on ASCII text: only \<open>A\<close> to \<open>Z\<close> change.\<close>

definition toLowerCase_char :: "char \<Rightarrow> char" where
  "toLowerCase_char c =
     (let n = (of_char c :: nat) in if 65 \<le> n \<and> n \<le> 90 then char_of (n + 32) else c)"

definition toLowerCase :: "string \<Rightarrow> string" where
  "toLowerCase s = map toLowerCase_char s"

text \<open>\<open>s.includes(t)\<close>: \<open>t\<close> starts at some position of \<open>s\<close>.\<close>

fun js_includes :: "string \<Rightarrow> string \<Rightarrow> bool" where
  "js_includes [] t = (t = [])"
| "js_includes (c # s) t = (prefix t (c # s) \<or> js_includes s t)"

text \<open>The comparison function handed to \<open>sort\<close>: the \<open>switch\<close> on \<open>sortBy\<close>.\<close>

definition compare_videos :: "string \<Rightarrow> video \<Rightarrow> video \<Rightarrow> int" where
  "compare_videos sortBy a b =
     (if sortBy = ''newest'' then last_modified b - last_modified a
      else if sortBy = ''oldest'' then last_modified a - last_modified b
      else if sortBy = ''size-desc'' then size_bytes b - size_bytes a
      else if sortBy = ''size-asc'' then size_bytes a - size_bytes b
      else 0)"

text \<open>
  \<open>Array.prototype.sort(cmp)\<close> is a stable sort: an element goes in front of the first
  element it does not compare greater than. Under a comparison function that is
  consistent, as \<open>compare_videos\<close> is, every stable sort returns this list.
\<close>

fun sort_insert :: "('a \<Rightarrow> 'a \<Rightarrow> int) \<Rightarrow> 'a \<Rightarrow> 'a list \<Rightarrow> 'a list" where
  "sort_insert cmp x [] = [x]"
| "sort_insert cmp x (y # ys) = (if cmp x y \<le> 0 then x # y # ys else y # sort_insert cmp x ys)"

fun js_sort :: "('a \<Rightarrow> 'a \<Rightarrow> int) \<Rightarrow> 'a list \<Rightarrow> 'a list" where
  "js_sort cmp [] = []"
| "js_sort cmp (x # xs) = sort_insert cmp x (js_sort cmp xs)"

text \<open>
  \<open>filterAndSortVideos()\<close> reads the search box and the sort selector, stores the
  filtered copy of \<open>state.videos\<close> in \<open>state.filteredVideos\<close> and sorts that copy in place.
\<close>

definition filterAndSortVideos :: "string \<Rightarrow> string \<Rightarrow> app_state \<Rightarrow> app_state" where
  "filterAndSortVideos searchInput sortSelect st =
     (let searchTerm = toLowerCase searchInput;
          sortBy = sortSelect;
          st1 = st\<lparr>filteredVideos :=
                     filter (\<lambda>video. js_includes (toLowerCase (key video)) searchTerm) (videos st)\<rparr>
      in st1\<lparr>filteredVideos := js_sort (compare_videos sortBy) (filteredVideos st1)\<rparr>)"

text \<open>
  What the search is meant to select: the entries whose key, in lower case, contains the
  search text in lower case as a contiguous part.
\<close>

definition matches :: "string \<Rightarrow> video \<Rightarrow> bool" where
  "matches searchInput v = sublist (toLowerCase searchInput) (toLowerCase (key v))"

text \<open>A list of four clips, and a page state holding it.\<close>

definition example_videos :: "video list" where
  "example_videos =
     [\<lparr>key = ''clips/Cam-A.mp4'', last_modified = 300, size_bytes = 10\<rparr>,
      \<lparr>key = ''clips/cam-b.mp4'', last_modified = 100, size_bytes = 30\<rparr>,
      \<lparr>key = ''other/x.mp4'', last_modified = 200, size_bytes = 20\<rparr>,
      \<lparr>key = ''clips/CAM-c.mp4'', last_modified = 200, size_bytes = 20\<rparr>]"

definition example_app_state :: app_state where
  "example_app_state =
     \<lparr>videos = example_videos, filteredVideos = [], selectedVideo = None,
      isLoading = False, streamStatus = ''offline''\<rparr>"

section \<open>Live and time-range playback (deploy/frontend/js/kvs-integration-simple.js)\<close>

text \<open>
  The script's \<open>state\<close> object. \<open>kvsPlayer\<close> is \<open>null\<close> until \<open>initKVSPlayer\<close> has
  found the video element; \<open>page_isPlaying\<close> is the script's own \<open>state.isPlaying\<close>.
\<close>

record integration_state =
  kvsPlayer :: "KVSPlayer option"
  streamMode :: string
  page_isPlaying :: bool

text \<open>
  What \<open>fetch\<close> gives back: a rejected promise with the error's message, or a response
  with its status and its body, which parses as a JSON object or does not.
\<close>

datatype response_json =
    NotJson
  | Json (j_hlsUrl: "string option") (j_error: "string option") (j_message: "string option")

datatype fetch_result = Rejected string | Response nat response_json

text \<open>
  The browser as \<open>startTimeRangePlayback\<close> meets it: the two \<open>datetime-local\<close> inputs,
  the built-in \<open>Date\<close> (the time value of \<open>new Date(s)\<close>, \<open>None\<close> for an invalid
  date; the clock as read in the third check and again when the page is updated; the
  formatting functions), the video element found when the script
  was loaded, the origin of the page, the answer of the API to a request, and what the
  browser can play.
\<close>

record browser =
  startTimeInput :: string
  endTimeInput :: string
  parse_Date :: "string \<Rightarrow> int option"
  now :: int
  now_connected :: int
  toISOString :: "int \<Rightarrow> string"
  toLocaleString :: "int \<Rightarrow> string"
  toLocaleTimeString :: "int \<Rightarrow> string"
  page_video :: "video_element option"
  origin :: string
  fetch_response :: "string \<Rightarrow> fetch_result"
  Hls_isSupported :: bool
  canPlayType_hls :: bool

text \<open>
  The relational operators on two \<open>Date\<close> objects compare their time values; a
  comparison with an invalid date (\<open>NaN\<close>) is false.
\<close>

fun js_ge :: "int option \<Rightarrow> int option \<Rightarrow> bool" where
  "js_ge (Some x) (Some y) = (y \<le> x)"
| "js_ge _ _ = False"

fun js_gt :: "int option \<Rightarrow> int option \<Rightarrow> bool" where
  "js_gt (Some x) (Some y) = (y < x)"
| "js_gt _ _ = False"

fun js_lt :: "int option \<Rightarrow> int option \<Rightarrow> bool" where
  "js_lt (Some x) (Some y) = (x < y)"
| "js_lt _ _ = False"

text \<open>A string is truthy when it is there and not empty.\<close>

fun truthy_string :: "string option \<Rightarrow> bool" where
  "truthy_string (Some s) = (s \<noteq> [])"
| "truthy_string None = False"

text \<open>\<open>a || d\<close> on strings: \<open>a\<close> when it is truthy, else \<open>d\<close>.\<close>

fun js_or :: "string option \<Rightarrow> string \<Rightarrow> string" where
  "js_or (Some s) d = (if s = [] then d else s)"
| "js_or None d = d"

text \<open>A number in a template literal: its decimal digits.\<close>

definition digit_char :: "nat \<Rightarrow> char" where
  "digit_char d = char_of (48 + d)"

fun decimal_text :: "nat \<Rightarrow> string" where
  "decimal_text n =
     (if 10 \<le> n then decimal_text (n div 10) @ [digit_char (n mod 10)] else [digit_char n])"

definition API_BASE_URL :: "browser \<Rightarrow> string" where
  "API_BASE_URL b = origin b @ ''/api''"

definition KVS_STREAM_NAME :: string where
  "KVS_STREAM_NAME = ''dockerStream''"

definition KVS_REGION :: string where
  "KVS_REGION = ''ap-northeast-1''"

text \<open>
  \<open>initKVSPlayer()\<close>: without the video element it logs an error and returns; with it,
  it stores a new player for the configured stream.
\<close>

definition initKVSPlayer :: "browser \<Rightarrow> integration_state \<Rightarrow> integration_state \<times> effect list" where
  "initKVSPlayer b st =
     (case page_video b of
        None \<Rightarrow> (st, [ConsoleError ''Video element not found''])
      | Some v \<Rightarrow>
          (st\<lparr>kvsPlayer := Some (new_KVSPlayer v
                 \<lparr> opt_streamName = Some KVS_STREAM_NAME, opt_region = Some KVS_REGION,
                   opt_refreshInterval = None \<rparr>)\<rparr>,
           [ConsoleLog ''KVS Player initialized'']))"

text \<open>
  The \<open>catch\<close> block of \<open>startTimeRangePlayback\<close>, given the message of the error
  caught. The texts shown to the user are Japanese in the source and are rendered in
  English here.
\<close>

definition catch_time_range :: "string \<Rightarrow> effect list" where
  "catch_time_range msg =
     [ConsoleError ''Error starting time-range playback:'',
      SetText StreamMessage ''Connecting to the time-range stream failed'',
      SetDisabled ApplyTimeRangeBtn False,
      SetText ApplyTimeRangeBtn ''Apply'',
      Alert (Alert_time_range_failed
        (if js_includes msg ''ResourceNotFoundException'' \<or> js_includes msg ''not found''
         then ''No recording exists in the given time range. Try another one.''
         else msg))]"

text \<open>
  The text of the error thrown for a response that is not \<open>ok\<close>:
  \<open>errorData.error || errorData.message || 'Unknown'\<close>, where a body that is not JSON
  counts as \<open>{ error: 'Unknown error' }\<close>.
\<close>

definition api_error_message :: "nat \<Rightarrow> response_json \<Rightarrow> string" where
  "api_error_message status body =
     ''API Error: '' @ decimal_text status @ '' - '' @
     (case body of
        NotJson \<Rightarrow> ''Unknown error''
      | Json u e m \<Rightarrow> js_or e (js_or m ''Unknown''))"

text \<open>
  The second half of the \<open>try\<close> block, entered with the URL the API returned: stop the
  current player if the page is playing, load the URL through HLS.js or natively, and
  update the page. The page has one video element, which \<open>elements.videoElement\<close> and
  the player's \<open>videoElement\<close> both refer to; where there is no player there is no
  element, and reading a property of \<open>null\<close> throws a \<open>TypeError\<close>.
\<close>

definition load_time_range ::
  "browser \<Rightarrow> int \<Rightarrow> int \<Rightarrow> string \<Rightarrow> integration_state \<Rightarrow> integration_state \<times> effect list" where
  "load_time_range b startDate endDate url st =
     (let (st1, e1) =
            (case kvsPlayer st of
               Some p \<Rightarrow> if page_isPlaying st
                         then (st\<lparr>kvsPlayer := Some (fst (stop p))\<rparr>, snd (stop p))
                         else (st, [])
             | None \<Rightarrow> (st, []));
          e2 = e1 @ [ConsoleLog ''Loading HLS URL:'']
      in case kvsPlayer st1 of
           None \<Rightarrow> (st1, e2 @ catch_time_range ''TypeError'')
         | Some p \<Rightarrow>
             if \<not> Hls_isSupported b \<and> \<not> canPlayType_hls b
             then (st1, e2 @ catch_time_range ''This browser does not support HLS playback'')
             else
               let (p1, e3) =
                     (if Hls_isSupported b then
                        let (h, e) =
                              (case hls p of
                                 Obj h \<Rightarrow> (h, [])
                               | _ \<Rightarrow> (\<lparr> lowLatencyMode = False, hls_source = None,
                                          media_attached = True, handlers = [] \<rparr>,
                                        [HlsAttachMedia]))
                        in (p\<lparr>hls := Obj (h\<lparr>hls_source := Some url,
                                               handlers := handlers h @ [''MANIFEST_PARSED'', ''ERROR'']\<rparr>)\<rparr>,
                            e @ [HlsLoadSource url, HlsOn ''MANIFEST_PARSED'', HlsOn ''ERROR''])
                      else
                        (p\<lparr>videoElement := (videoElement p)\<lparr>video_src := url\<rparr>\<rparr>, [VideoPlay]));
                   p2 = p1\<lparr>videoElement := (videoElement p1)\<lparr>video_display := ''block''\<rparr>\<rparr>
               in (st1\<lparr>kvsPlayer := Some p2, page_isPlaying := True\<rparr>,
                   e2 @ e3 @
                   [SetDisplay Placeholder ''none'',
                    SetDisplay VideoElement ''block'',
                    SetText StatusBadge ''Playing'',
                    SetClassName StatusBadge ''status-badge online'',
                    SetText StreamModeDisplay
                      (''Time range ('' @ toLocaleString b startDate @ '' - '' @ toLocaleString b endDate @ '')''),
                    SetText StreamResolution ''1280x720'',
                    SetText ConnectionTime (toLocaleTimeString b (now_connected b)),
                    SetDisabled ApplyTimeRangeBtn False,
                    SetText ApplyTimeRangeBtn ''Apply'',
                    ConsoleLog ''Time-range playback started successfully'']))"

text \<open>
  The first half of the \<open>try\<close> block after the three checks, with both dates valid:
  announce the connection, create the player if there is none, request the HLS URL for
  the range and read the answer.
\<close>

definition request_time_range ::
  "browser \<Rightarrow> int \<Rightarrow> int \<Rightarrow> integration_state \<Rightarrow> integration_state \<times> effect list" where
  "request_time_range b startDate endDate st =
     (let e0 = [ConsoleLog ''Starting time-range playback:'',
                SetText StreamMessage ''Connecting to the time-range stream...'',
                SetDisabled ApplyTimeRangeBtn True,
                SetText ApplyTimeRangeBtn ''Connecting...''];
          (st1, e1) = (if kvsPlayer st = None then initKVSPlayer b st else (st, []));
          apiUrl = API_BASE_URL b @ ''/kvs/hls-url?stream='' @ KVS_STREAM_NAME @
                   ''&mode=on_demand&start='' @ toISOString b startDate @
                   ''&end='' @ toISOString b endDate;
          e2 = e0 @ e1 @ [ConsoleLog ''Fetching HLS URL:'', Fetch apiUrl]
      in case fetch_response b apiUrl of
           Rejected msg \<Rightarrow> (st1, e2 @ catch_time_range msg)
         | Response status body \<Rightarrow>
             if \<not> (200 \<le> status \<and> status \<le> 299)
             then (st1, e2 @ [ConsoleError ''API Error:''] @
                        catch_time_range (api_error_message status body))
             else (case body of
                     NotJson \<Rightarrow> (st1, e2 @ catch_time_range ''Unexpected token in JSON'')
                   | Json u e m \<Rightarrow>
                       (case (if truthy_string u then u else None) of
                          None \<Rightarrow> (st1, e2 @ [ConsoleLog ''HLS URL response:''] @
                                       catch_time_range ''Could not get the HLS URL'')
                        | Some url \<Rightarrow>
                            (let (st2, e3) = load_time_range b startDate endDate url st1
                             in (st2, e2 @ [ConsoleLog ''HLS URL response:''] @ e3)))))"

text \<open>
  \<open>startTimeRangePlayback()\<close>: the three checks, each of which alerts and returns; then
  \<open>toISOString()\<close>, which throws a \<open>RangeError\<close> on an invalid date, caught by the
  \<open>catch\<close> block; then the request.
\<close>

definition startTimeRangePlayback ::
  "browser \<Rightarrow> integration_state \<Rightarrow> integration_state \<times> effect list" where
  "startTimeRangePlayback b st =
     (let startTime = startTimeInput b;
          endTime = endTimeInput b
      in if startTime = [] \<or> endTime = [] then (st, [Alert Alert_both_times_required])
         else
           let startDate = parse_Date b startTime;
               endDate = parse_Date b endTime
           in if js_ge startDate endDate then (st, [Alert Alert_end_must_follow_start])
              else if js_gt startDate (Some (now b)) then (st, [Alert Alert_start_in_future])
              else (case (startDate, endDate) of
                      (Some s, Some e) \<Rightarrow> request_time_range b s e st
                    | _ \<Rightarrow> (st, catch_time_range ''Invalid time value'')))"

text \<open>
  The effects that reach the network or start playback, and the alerts.
\<close>

fun is_network_request :: "effect \<Rightarrow> bool" where
  "is_network_request (Fetch _) = True"
| "is_network_request _ = False"

fun starts_playback :: "effect \<Rightarrow> bool" where
  "starts_playback (HlsLoadSource _) = True"
| "starts_playback VideoPlay = True"
| "starts_playback _ = False"

fun is_alert :: "effect \<Rightarrow> bool" where
  "is_alert (Alert _) = True"
| "is_alert _ = False"

text \<open>
  A browser whose inputs hold times as numbers of minutes, whose clock stands at 1000,
  and whose API answers every request with an HLS URL; and a page that has not played.
\<close>

fun digit_value :: "char \<Rightarrow> nat option" where
  "digit_value c =
     (let n = (of_char c :: nat) in if 48 \<le> n \<and> n \<le> 57 then Some (n - 48) else None)"

fun parse_digits :: "nat \<Rightarrow> string \<Rightarrow> nat option" where
  "parse_digits acc [] = Some acc"
| "parse_digits acc (c # cs) =
     (case digit_value c of None \<Rightarrow> None | Some d \<Rightarrow> parse_digits (10 * acc + d) cs)"

definition parse_minutes :: "string \<Rightarrow> int option" where
  "parse_minutes s = (if s = [] then None else map_option int (parse_digits 0 s))"

definition example_browser :: "string \<Rightarrow> string \<Rightarrow> browser" where
  "example_browser s e =
     \<lparr> startTimeInput = s, endTimeInput = e, parse_Date = parse_minutes, now = 1000,
       now_connected = 1001,
       toISOString = (\<lambda>t. decimal_text (nat t)), toLocaleString = (\<lambda>t. decimal_text (nat t)),
       toLocaleTimeString = (\<lambda>t. decimal_text (nat t)),
       page_video = Some example_video, origin = ''https://example.org'',
       fetch_response = (\<lambda>u. Response 200 (Json (Some ''https://kvs.example/hls.m3u8'') None None)),
       Hls_isSupported = True, canPlayType_hls = False \<rparr>"

definition example_page :: integration_state where
  "example_page = \<lparr> kvsPlayer = None, streamMode = ''time-range'', page_isPlaying = False \<rparr>"

section \<open>The launch scripts (deploy/local/start_streaming.sh, docker-entrypoint.sh)\<close>

text \<open>
  A line a script prints: \<open>echo\<close> prints it plain, \<open>echo -e "${RED}...${NC}"\<close> in
  a colour. The check mark the scripts print in front of a passed check is written
  \<open>[ok]\<close> here.
\<close>

datatype line = Plain string | Red string | Green string | Yellow string

text \<open>
  \<open>echo -e\<close> interprets backslash escapes in the whole text it is given, the value of
  an expanded variable included: the text up to the first backslash is printed as it
  is, and from there on it is what the shell's \<open>echo\<close> makes of it (\<open>esc\<close>).
\<close>

fun echo_e :: "(string \<Rightarrow> string) \<Rightarrow> string \<Rightarrow> string" where
  "echo_e esc [] = []"
| "echo_e esc (c # cs) = (if c = CHR 0x5C then esc (c # cs) else c # echo_e esc cs)"

text \<open>A command with its arguments, as the words of the command line.\<close>

datatype command = Cmd string "string list"

text \<open>How a script ends: with \<open>exit n\<close>, or by running a program to its end.\<close>

datatype script_end = Exit nat | Launch command

record script_result =
  printed :: "line list"
  final :: script_end

text \<open>
  What a script finds around it: the environment, the files, the programs on the path,
  the GStreamer plugins, the first line of \<open>gst-launch-1.0 --version\<close>, the shell's
  arithmetic \<open>$((s / 30))\<close> (its text, or \<open>None\<close> when the expansion fails), what
  \<open>echo -e\<close> prints for a text that starts with a backslash, whether \<open>read\<close> gets a
  line, the positional parameters, and the exit status of each program it can launch
  (\<open>None\<close> for a program that never ends).
\<close>

record shell_world =
  environ :: "string \<Rightarrow> string option"
  file_exists :: "string \<Rightarrow> bool"
  grep_qi_linux :: "string \<Rightarrow> bool"
  command_exists :: "string \<Rightarrow> bool"
  gst_inspect :: "string \<Rightarrow> bool"
  gst_version_line :: string
  arith_div_30 :: "string \<Rightarrow> string option"
  echo_escapes :: "string \<Rightarrow> string"
  stdin_has_line :: bool
  parameters :: "string list"
  run :: "command \<Rightarrow> nat option"

text \<open>\<open>$VAR\<close>: the value, empty when the variable is unset (the scripts do not set \<open>-u\<close>).\<close>

definition getenv :: "shell_world \<Rightarrow> string \<Rightarrow> string" where
  "getenv w v = (case environ w v of None \<Rightarrow> [] | Some s \<Rightarrow> s)"

text \<open>\<open>${VAR:-default}\<close>: the default when the variable is unset or empty.\<close>

definition getenv_default :: "shell_world \<Rightarrow> string \<Rightarrow> string \<Rightarrow> string" where
  "getenv_default w v d = (if getenv w v = [] then d else getenv w v)"

text \<open>The exit status of the process that ran the script.\<close>

definition exit_status :: "shell_world \<Rightarrow> script_result \<Rightarrow> nat option" where
  "exit_status w r = (case final r of Exit n \<Rightarrow> Some n | Launch c \<Rightarrow> run w c)"

subsection \<open>start\_streaming.sh\<close>

text \<open>The configuration block, lines 7 to 16.\<close>

record launcher_config =
  MODEL_PATH :: string
  CAMERA_INDEX :: string
  WIDTH :: string
  HEIGHT :: string
  CONF_THRESHOLD :: string
  TCP_HOST :: string
  TCP_PORT :: string
  YOLO_INTERVAL :: string
  BITRATE :: string
  KEYFRAME_INTERVAL :: string

definition configuration :: "shell_world \<Rightarrow> launcher_config" where
  "configuration w =
     \<lparr> MODEL_PATH = getenv_default w ''MODEL_PATH'' ''../../model/best.pt'',
       CAMERA_INDEX = getenv_default w ''CAMERA_INDEX'' ''0'',
       WIDTH = getenv_default w ''WIDTH'' ''1280'',
       HEIGHT = getenv_default w ''HEIGHT'' ''720'',
       CONF_THRESHOLD = getenv_default w ''CONF_THRESHOLD'' ''0.5'',
       TCP_HOST = getenv_default w ''TCP_HOST'' ''0.0.0.0'',
       TCP_PORT = getenv_default w ''TCP_PORT'' ''5000'',
       YOLO_INTERVAL = getenv_default w ''YOLO_INTERVAL'' ''3'',
       BITRATE = getenv_default w ''BITRATE'' ''1500'',
       KEYFRAME_INTERVAL = getenv_default w ''KEYFRAME_INTERVAL'' ''90'' \<rparr>"

text \<open>The command of lines 69 to 79. Every argument is quoted in the script: one word each.\<close>

definition stream_to_kvs_command :: "launcher_config \<Rightarrow> command" where
  "stream_to_kvs_command c =
     Cmd ''python''
       [''stream_to_kvs.py'',
        ''--model'', MODEL_PATH c,
        ''--camera'', CAMERA_INDEX c,
        ''--width'', WIDTH c,
        ''--height'', HEIGHT c,
        ''--conf'', CONF_THRESHOLD c,
        ''--host'', TCP_HOST c,
        ''--port'', TCP_PORT c,
        ''--yolo-interval'', YOLO_INTERVAL c,
        ''--bitrate'', BITRATE c,
        ''--keyframe-interval'', KEYFRAME_INTERVAL c]"

definition streaming_banner :: "line list" where
  "streaming_banner = [Green ''=== Shiitake Monitoring - YOLO Streaming ==='', Plain []]"

text \<open>
  The lines of the summary, lines 47 to 63. The line with the keyframe interval holds
  the arithmetic expansion \<open>$((KEYFRAME_INTERVAL / 30))\<close>; when that expansion fails
  the shell reports the error, does not run this \<open>echo\<close>, and goes on with the next
  command.
\<close>

definition streaming_summary :: "launcher_config \<Rightarrow> string option \<Rightarrow> line list" where
  "streaming_summary c seconds =
     [Plain [],
      Plain ''Configuration:'',
      Plain (''  Model: '' @ MODEL_PATH c),
      Plain (''  Camera: '' @ CAMERA_INDEX c),
      Plain (''  Resolution: '' @ WIDTH c @ ''x'' @ HEIGHT c),
      Plain (''  Confidence: '' @ CONF_THRESHOLD c),
      Plain (''  YOLO Interval: Every '' @ YOLO_INTERVAL c @ '' frames''),
      Plain (''  Bitrate: '' @ BITRATE c @ '' kbps'')] @
     (case seconds of
        None \<Rightarrow> []
      | Some t \<Rightarrow>
          [Plain (''  Keyframe Interval: '' @ KEYFRAME_INTERVAL c @ '' frames (~'' @ t @ '' sec)'')]) @
     [Plain (''  TCP Target: '' @ TCP_HOST c @ '':'' @ TCP_PORT c),
      Plain [],
      Yellow ''Note: Make sure Docker container is running and waiting for connection'',
      Plain ''Docker command should be:'',
      Plain (''  gst-launch-1.0 -v tcpclientsrc host=host.docker.internal port='' @ TCP_PORT c @
             '' ! gdpdepay ! video/x-h264,format=avc,alignment=au ! h264parse ! kvssink stream-name=dockerStream''),
      Plain []]"

text \<open>
  The script from top to bottom: the two checks, the summary, the prompt, the launch.
  Under \<open>set -e\<close> a \<open>read\<close> at the end of the input ends the script with status 1.
  The last command is the Python program, whose status is the script's.
\<close>

definition start_streaming :: "shell_world \<Rightarrow> script_result" where
  "start_streaming w =
     (let c = configuration w in
      if \<not> file_exists w (MODEL_PATH c) then
        \<lparr> printed = streaming_banner @
            [Red (echo_e (echo_escapes w) (''Error: Model file not found: '' @ MODEL_PATH c)),
             Plain ''Please train the model first or specify MODEL_PATH environment variable''],
          final = Exit 1 \<rparr>
      else if \<not> command_exists w ''python3'' then
        \<lparr> printed = streaming_banner @
            [Green (echo_e (echo_escapes w) (''[ok] Model found: '' @ MODEL_PATH c)),
             Red ''Error: python3 not found''],
          final = Exit 1 \<rparr>
      else
        let checks = streaming_banner @
              [Green (echo_e (echo_escapes w) (''[ok] Model found: '' @ MODEL_PATH c)),
               Green ''[ok] Python 3 found'',
               Green ''[ok] GStreamer found''];
            summary = streaming_summary c (arith_div_30 w (KEYFRAME_INTERVAL c))
        in if \<not> stdin_has_line w then
             \<lparr> printed = checks @ summary, final = Exit 1 \<rparr>
           else
             \<lparr> printed = checks @ summary @ [Green ''Starting YOLO streaming...''],
               final = Launch (stream_to_kvs_command c) \<rparr>)"

subsection \<open>docker-entrypoint.sh\<close>

text \<open>
  \<open>TCP_HOST\<close> after the auto-detection of lines 15 to 24: the given value, or the
  Docker bridge address on Linux and \<open>host.docker.internal\<close> elsewhere.
\<close>

definition container_TCP_HOST :: "shell_world \<Rightarrow> string" where
  "container_TCP_HOST w =
     (if getenv w ''TCP_HOST'' = [] then
        (if file_exists w ''/proc/version'' \<and> grep_qi_linux w ''/proc/version''
         then ''172.17.0.1'' else ''host.docker.internal'')
      else getenv w ''TCP_HOST'')"

text \<open>
  The command of lines 82 to 87. \<open>$TCP_HOST\<close>, \<open>$TCP_PORT\<close> and \<open>$STREAM_NAME\<close>
  are not quoted there; a host name, a port number and a stream name hold no blank and
  no pattern character, so each expands to one word.
\<close>

definition kvs_receiver_command :: "shell_world \<Rightarrow> command" where
  "kvs_receiver_command w =
     Cmd ''gst-launch-1.0''
       [''-v'',
        ''tcpclientsrc'', ''host='' @ container_TCP_HOST w, ''port='' @ getenv w ''TCP_PORT'', ''!'',
        ''gdpdepay'', ''!'',
        ''video/x-h264,format=avc,alignment=au'', ''!'',
        ''h264parse'', ''!'',
        ''kvssink'', ''stream-name='' @ getenv w ''STREAM_NAME'']"

definition container_banner :: "line list" where
  "container_banner = [Green ''=== Shiitake Monitoring - KVS Container ==='', Plain []]"

definition credentials_report :: "shell_world \<Rightarrow> line list" where
  "credentials_report w =
     [Green ''[ok] AWS credentials configured'',
      Plain (''  Region: '' @ getenv w ''AWS_DEFAULT_REGION''),
      Plain (''  Access Key: '' @ take 10 (getenv w ''AWS_ACCESS_KEY_ID'') @ ''...''),
      Plain [],
      Plain ''Verifying GStreamer installation...'']"

definition container_summary :: "shell_world \<Rightarrow> line list" where
  "container_summary w =
     [Plain [],
      Plain ''Configuration:'',
      Plain (''  Stream Name: '' @ getenv w ''STREAM_NAME''),
      Plain (''  TCP Source: '' @ container_TCP_HOST w @ '':'' @ getenv w ''TCP_PORT''),
      Plain (''  Region: '' @ getenv w ''AWS_DEFAULT_REGION''),
      Plain []]"

text \<open>\<open>"$1"\<close>: the first positional parameter, empty when there is none.\<close>

definition first_parameter :: "shell_world \<Rightarrow> string" where
  "first_parameter w = (case parameters w of [] \<Rightarrow> [] | a # _ \<Rightarrow> a)"

text \<open>
  The script from top to bottom: the credentials check, the two GStreamer checks, and
  the \<open>case\<close> on the first parameter. \<open>exec\<close> replaces the shell by the program, so
  the process ends when, and with the status with which, the program ends; nothing of
  the script runs after it.
\<close>

definition docker_entrypoint :: "shell_world \<Rightarrow> script_result" where
  "docker_entrypoint w =
     (if getenv w ''AWS_ACCESS_KEY_ID'' = [] \<or> getenv w ''AWS_SECRET_ACCESS_KEY'' = [] then
        \<lparr> printed = container_banner @
            [Red ''Error: AWS credentials not set'',
             Plain [],
             Plain ''Please set the following environment variables:'',
             Plain ''  AWS_ACCESS_KEY_ID'',
             Plain ''  AWS_SECRET_ACCESS_KEY'',
             Plain ''  AWS_DEFAULT_REGION (optional, default: ap-northeast-1)'',
             Plain [],
             Plain ''You can set them in the .env file or pass them via docker-compose''],
          final = Exit 1 \<rparr>
      else if \<not> command_exists w ''gst-launch-1.0'' then
        \<lparr> printed = container_banner @ credentials_report w @
            [Red ''Error: GStreamer not found''],
          final = Exit 1 \<rparr>
      else if \<not> gst_inspect w ''kvssink'' then
        \<lparr> printed = container_banner @ credentials_report w @
            [Green ''[ok] GStreamer found'', Plain (gst_version_line w),
             Red ''Error: kvssink plugin not found''],
          final = Exit 1 \<rparr>
      else
        let checks = container_banner @ credentials_report w @
              [Green ''[ok] GStreamer found'', Plain (gst_version_line w),
               Green ''[ok] kvssink plugin found''] @ container_summary w
        in if first_parameter w = ''kvs'' then
             \<lparr> printed = checks @
                 [Yellow ''Waiting for connection from host...'',
                  Plain ''Make sure to start the Python streaming script on the host side:'',
                  Plain ''  ./start_streaming.sh'',
                  Plain [],
                  Green ''Starting KVS receiver...'',
                  Plain ''Pipeline: tcpclientsrc -> gdpdepay -> h264parse -> kvssink'',
                  Plain []],
               final = Launch (kvs_receiver_command w) \<rparr>
           else if first_parameter w = ''bash'' \<or> first_parameter w = ''sh'' then
             \<lparr> printed = checks @ [Yellow ''Starting interactive shell...'', Plain []],
               final = Launch (Cmd ''/bin/bash'' []) \<rparr>
           else
             \<lparr> printed = checks @
                 [Red (echo_e (echo_escapes w) (''Unknown command: '' @ first_parameter w)),
                  Plain [],
                  Plain ''Available commands:'',
                  Plain ''  kvs   - Start KVS receiver (default)'',
                  Plain ''  bash  - Start interactive shell''],
               final = Exit 1 \<rparr>)"

text \<open>A script has reported a failure when it printed a red line that starts \<open>Error:\<close>.\<close>

fun is_error_line :: "line \<Rightarrow> bool" where
  "is_error_line (Red s) = prefix ''Error:'' s"
| "is_error_line _ = False"

definition reports_failure :: "script_result \<Rightarrow> bool" where
  "reports_failure r = list_ex is_error_line (printed r)"

fun launches :: "script_end \<Rightarrow> bool" where
  "launches (Launch _) = True"
| "launches (Exit _) = False"

text \<open>
  The elements of a \<open>gst-launch-1.0\<close> pipeline description: the words between the
  \<open>!\<close> links, after the options.
\<close>

fun split_links :: "string list \<Rightarrow> string list \<Rightarrow> string list list" where
  "split_links acc [] = [rev acc]"
| "split_links acc (x # xs) =
     (if x = ''!'' then rev acc # split_links [] xs else split_links (x # acc) xs)"

definition pipeline_elements :: "command \<Rightarrow> string list list" where
  "pipeline_elements c =
     (case c of Cmd prog ws \<Rightarrow> split_links [] (filter (\<lambda>x. \<not> prefix ''-'' x) ws))"

text \<open>
  The element that reads what the TCP source delivers: the one linked to the first
  element. The stream on the socket is bare H.264 when that element is the H.264 caps
  filter or the H.264 parser.
\<close>

definition socket_reader :: "command \<Rightarrow> string list option" where
  "socket_reader c = (case pipeline_elements c of src # e # _ \<Rightarrow> Some e | _ \<Rightarrow> None)"

definition reads_bare_h264 :: "command \<Rightarrow> bool" where
  "reads_bare_h264 c =
     (case socket_reader c of
        Some [e] \<Rightarrow> prefix ''video/x-h264'' e \<or> e = ''h264parse''
      | _ \<Rightarrow> False)"

text \<open>
  Worlds to run the scripts in. The host has the model and both Python commands; the
  container has the credentials, GStreamer and the plugin, and is told \<open>kvs\<close>. The
  programs they launch run without end.
\<close>

definition container_env :: "string \<Rightarrow> string option" where
  "container_env v =
     (if v = ''AWS_ACCESS_KEY_ID'' then Some ''AKIAEXAMPLEKEY0000''
      else if v = ''AWS_SECRET_ACCESS_KEY'' then Some ''secret''
      else if v = ''AWS_DEFAULT_REGION'' then Some ''ap-northeast-1''
      else if v = ''STREAM_NAME'' then Some ''dockerStream''
      else if v = ''TCP_PORT'' then Some ''5000''
      else None)"

definition container_world :: shell_world where
  "container_world =
     \<lparr> environ = container_env, file_exists = (\<lambda>f. f = ''/proc/version''),
       grep_qi_linux = (\<lambda>f. True), command_exists = (\<lambda>c. True), gst_inspect = (\<lambda>p. True),
       gst_version_line = ''gst-launch-1.0 version 1.20.3'',
       arith_div_30 = (\<lambda>s. Some ''3''), echo_escapes = (\<lambda>s. s), stdin_has_line = True,
       parameters = [''kvs''], run = (\<lambda>c. None) \<rparr>"

definition host_world :: shell_world where
  "host_world =
     \<lparr> environ = (\<lambda>v. None), file_exists = (\<lambda>f. f = ''../../model/best.pt''),
       grep_qi_linux = (\<lambda>f. True), command_exists = (\<lambda>c. True), gst_inspect = (\<lambda>p. True),
       gst_version_line = ''gst-launch-1.0 version 1.20.3'',
       arith_div_30 = (\<lambda>s. Some ''3''), echo_escapes = (\<lambda>s. s), stdin_has_line = True,
       parameters = [], run = (\<lambda>c. None) \<rparr>"

text \<open>The same worlds with one precondition taken away.\<close>

definition host_without_model :: shell_world where
  "host_without_model = host_world\<lparr>file_exists := (\<lambda>f. False)\<rparr>"

definition host_without_python3 :: shell_world where
  "host_without_python3 = host_world\<lparr>command_exists := (\<lambda>c. c \<noteq> ''python3'')\<rparr>"

definition container_without_credentials :: shell_world where
  "container_without_credentials = container_world\<lparr>environ := (\<lambda>v. None)\<rparr>"

definition container_without_gstreamer :: shell_world where
  "container_without_gstreamer =
     container_world\<lparr>command_exists := (\<lambda>c. c \<noteq> ''gst-launch-1.0'')\<rparr>"

definition container_without_kvssink :: shell_world where
  "container_without_kvssink = container_world\<lparr>gst_inspect := (\<lambda>p. p \<noteq> ''kvssink'')\<rparr>"

section \<open>The streaming pipeline (stream\_to\_kvs.py, described by the specification)\<close>

text \<open>
  \<open>start_streaming.sh\<close> launches \<open>stream_to_kvs.py\<close>, which is not among the
  sources. The definitions of this section follow the specification's description of
  that program; each says which part it follows.
\<close>

text \<open>Modelled from the spec: the conversion of a numeric start-up parameter of
  \<open>stream_to_kvs.py\<close> (section 6: the indices, sizes, intervals, bitrate and port are
  integers), here the decimal text of a natural number.
\<close>

definition parse_nat :: "string \<Rightarrow> nat option" where
  "parse_nat s = (if s = [] then None else parse_digits 0 s)"

text \<open>Modelled from the spec: \<open>PipelineConfig\<close> of \<open>stream_to_kvs.py\<close> (section 3): camera
  index, resolution, confidence threshold, detection interval, target bitrate,
  keyframe interval, sink host and port. The threshold is kept as the text given at
  start-up.
\<close>

record PipelineConfig =
  camera_index :: nat
  frame_width :: nat
  frame_height :: nat
  confidence_threshold :: string
  detection_interval :: nat
  target_bitrate :: nat
  keyframe_interval :: nat
  sink_host :: string
  sink_port :: nat

text \<open>Modelled from the spec: the construction of \<open>PipelineConfig\<close> from the start-up
  parameters of \<open>stream_to_kvs.py\<close> (section 3: "created once from startup
  parameters"), which are the arguments \<open>start_streaming.sh\<close> passes. There is no
  configuration when a numeric parameter is not a number.
\<close>

definition make_config :: "launcher_config \<Rightarrow> PipelineConfig option" where
  "make_config c =
     (case (parse_nat (CAMERA_INDEX c), parse_nat (WIDTH c), parse_nat (HEIGHT c)) of
        (Some cam, Some w, Some h) \<Rightarrow>
          (case (parse_nat (YOLO_INTERVAL c), parse_nat (BITRATE c),
                 parse_nat (KEYFRAME_INTERVAL c), parse_nat (TCP_PORT c)) of
             (Some n, Some b, Some k, Some p) \<Rightarrow>
               Some \<lparr> camera_index = cam, frame_width = w, frame_height = h,
                      confidence_threshold = CONF_THRESHOLD c, detection_interval = n,
                      target_bitrate = b, keyframe_interval = k,
                      sink_host = TCP_HOST c, sink_port = p \<rparr>
           | _ \<Rightarrow> None)
      | _ \<Rightarrow> None)"

subsection \<open>DetectionScheduler\<close>

text \<open>Modelled from the spec: \<open>DetectionResult\<close> of \<open>stream_to_kvs.py\<close> (section 3): the
  boxes, the sequence number of the frame they were computed from, and the time of the
  computation.
\<close>

record 'b DetectionResult =
  boxes :: "'b list"
  result_seq :: nat
  computed_at :: nat

text \<open>Modelled from the spec: the state of the \<open>DetectionScheduler\<close> of
  \<open>stream_to_kvs.py\<close> (sections 3 and 4.2): the \<open>DetectionCache\<close>, holding the single
  most recent result, and the frames handed to the detector whose inference has not
  completed.
\<close>

record 'b scheduler_state =
  cache :: "'b DetectionResult option"
  in_flight :: "nat list"

text \<open>Modelled from the spec: what the \<open>DetectionScheduler\<close> of \<open>stream_to_kvs.py\<close> meets
  (section 4.2): a frame arrives, an inference completes with a result, or an inference
  fails.
\<close>

datatype 'b scheduler_event =
    Frame_arrives nat
  | Detection_done "'b DetectionResult"
  | Detection_failed nat

text \<open>Modelled from the spec: a frame as the \<open>DetectionScheduler\<close> of \<open>stream_to_kvs.py\<close>
  forwards it (section 4.2): its sequence number, whether inference was invoked on
  it, and the cache entry the compositor draws on it.
\<close>

record 'b forwarded_frame =
  frame_seq :: nat
  detection_invoked :: bool
  overlay :: "'b DetectionResult option"

text \<open>Modelled from the spec: the decision of the \<open>DetectionScheduler\<close> of
  \<open>stream_to_kvs.py\<close> on an incoming frame (section 4.2): the frame is submitted to
  the detector when its sequence number is a multiple of the detection interval; in
  either case it is forwarded at once with the existing cache entry.
\<close>

definition on_frame ::
  "PipelineConfig \<Rightarrow> nat \<Rightarrow> 'b scheduler_state \<Rightarrow> 'b scheduler_state \<times> 'b forwarded_frame" where
  "on_frame cfg seq st =
     (let due = (seq mod detection_interval cfg = 0)
      in ((if due then st\<lparr>in_flight := in_flight st @ [seq]\<rparr> else st),
          \<lparr> frame_seq = seq, detection_invoked = due, overlay = cache st \<rparr>))"

text \<open>Modelled from the spec: the completion of an inference in the \<open>DetectionScheduler\<close>
  of \<open>stream_to_kvs.py\<close> (section 4.2): the result replaces the cache only if its
  sequence number is newer than the cache's.
\<close>

definition on_completion :: "'b DetectionResult \<Rightarrow> 'b scheduler_state \<Rightarrow> 'b scheduler_state" where
  "on_completion r st =
     st\<lparr> in_flight := removeAll (result_seq r) (in_flight st),
         cache := (case cache st of
                     None \<Rightarrow> Some r
                   | Some c \<Rightarrow> if result_seq c < result_seq r then Some r else Some c) \<rparr>"

text \<open>Modelled from the spec: a failure of the detector in the \<open>DetectionScheduler\<close> of
  \<open>stream_to_kvs.py\<close> (section 4.2): no update, the cache is retained.
\<close>

definition on_failure :: "nat \<Rightarrow> 'b scheduler_state \<Rightarrow> 'b scheduler_state" where
  "on_failure seq st = st\<lparr> in_flight := removeAll seq (in_flight st) \<rparr>"

text \<open>Modelled from the spec: the state the \<open>DetectionScheduler\<close> of
  \<open>stream_to_kvs.py\<close> reaches over a sequence of events (section 4.2).
\<close>

fun scheduler_after ::
  "PipelineConfig \<Rightarrow> 'b scheduler_state \<Rightarrow> 'b scheduler_event list \<Rightarrow> 'b scheduler_state" where
  "scheduler_after cfg st [] = st"
| "scheduler_after cfg st (Frame_arrives s # es) = scheduler_after cfg (fst (on_frame cfg s st)) es"
| "scheduler_after cfg st (Detection_done r # es) = scheduler_after cfg (on_completion r st) es"
| "scheduler_after cfg st (Detection_failed s # es) = scheduler_after cfg (on_failure s st) es"

text \<open>Modelled from the spec: the frames the \<open>DetectionScheduler\<close> of
  \<open>stream_to_kvs.py\<close> forwards over a sequence of events (sections 4.2 and 5): every
  frame, in the order of arrival, whatever the inferences do.
\<close>

fun run_scheduler ::
  "PipelineConfig \<Rightarrow> 'b scheduler_state \<Rightarrow> 'b scheduler_event list \<Rightarrow> 'b forwarded_frame list" where
  "run_scheduler cfg st [] = []"
| "run_scheduler cfg st (Frame_arrives s # es) =
     snd (on_frame cfg s st) # run_scheduler cfg (fst (on_frame cfg s st)) es"
| "run_scheduler cfg st (Detection_done r # es) = run_scheduler cfg (on_completion r st) es"
| "run_scheduler cfg st (Detection_failed s # es) = run_scheduler cfg (on_failure s st) es"

text \<open>Modelled from the spec: the \<open>DetectionScheduler\<close> of \<open>stream_to_kvs.py\<close> at start
  (section 4.3: the cache is empty until a detection has completed).
\<close>

definition initial_scheduler :: "'b scheduler_state" where
  "initial_scheduler = \<lparr> cache = None, in_flight = [] \<rparr>"

text \<open>The results of the inferences that completed among a sequence of events.\<close>

fun completed :: "'b scheduler_event list \<Rightarrow> 'b DetectionResult list" where
  "completed [] = []"
| "completed (Detection_done r # es) = r # completed es"
| "completed (_ # es) = completed es"

text \<open>
  The newest of a list of results, starting from a cache entry: a result takes the
  place of the entry when its sequence number is greater.
\<close>

fun newest :: "'b DetectionResult option \<Rightarrow> 'b DetectionResult list \<Rightarrow> 'b DetectionResult option" where
  "newest c [] = c"
| "newest c (r # rs) =
     newest (case c of
               None \<Rightarrow> Some r
             | Some x \<Rightarrow> if result_seq x < result_seq r then Some r else Some x) rs"

text \<open>The sequence numbers of the frames that arrive among a sequence of events.\<close>

fun arrivals :: "'b scheduler_event list \<Rightarrow> nat list" where
  "arrivals [] = []"
| "arrivals (Frame_arrives s # es) = s # arrivals es"
| "arrivals (_ # es) = arrivals es"

text \<open>
  The frame the scheduler forwards for the frame \<open>s\<close> that arrives after the events
  \<open>pre\<close> and before the events \<open>post\<close>, when it starts with an empty cache.
\<close>

definition frame_after ::
  "PipelineConfig \<Rightarrow> 'b scheduler_event list \<Rightarrow> nat \<Rightarrow> 'b scheduler_event list \<Rightarrow> 'b forwarded_frame" where
  "frame_after cfg pre s post =
     run_scheduler cfg initial_scheduler (pre @ Frame_arrives s # post)
       ! length (run_scheduler cfg initial_scheduler pre)"

subsection \<open>Encoder\<close>

text \<open>Modelled from the spec: \<open>EncodedChunk\<close> of \<open>stream_to_kvs.py\<close> (section 3): the
  sequence number of the source frame and the keyframe flag; the H.264 bytes are not
  modelled.
\<close>

record EncodedChunk =
  chunk_seq :: nat
  is_keyframe :: bool

text \<open>Modelled from the spec: the state of the \<open>Encoder\<close> of \<open>stream_to_kvs.py\<close>
  (section 4.4): the number of chunks emitted since the last keyframe, that keyframe
  included, and the sequence number of the last frame accepted.
\<close>

record encoder_state =
  since_keyframe :: nat
  last_seq :: "nat option"

text \<open>Modelled from the spec: \<open>Encoder\<close> of \<open>stream_to_kvs.py\<close> on one frame
  (section 4.4): it emits a keyframe on the first frame, on a detected discontinuity
  of the sequence numbers, and when \<open>keyframe_interval\<close> chunks have been emitted since
  the last keyframe began.
\<close>

definition encode :: "PipelineConfig \<Rightarrow> nat \<Rightarrow> encoder_state \<Rightarrow> encoder_state \<times> EncodedChunk" where
  "encode cfg seq st =
     (let fresh = (case last_seq st of None \<Rightarrow> True | Some l \<Rightarrow> seq \<noteq> Suc l);
          keyframe = (fresh \<or> keyframe_interval cfg \<le> since_keyframe st)
      in (\<lparr> since_keyframe = (if keyframe then 1 else Suc (since_keyframe st)),
            last_seq = Some seq \<rparr>,
          \<lparr> chunk_seq = seq, is_keyframe = keyframe \<rparr>))"

text \<open>Modelled from the spec: the chunks the \<open>Encoder\<close> of \<open>stream_to_kvs.py\<close>
  emits over the frames it is given, one per frame (section 4.4).
\<close>

fun encode_all :: "PipelineConfig \<Rightarrow> encoder_state \<Rightarrow> nat list \<Rightarrow> EncodedChunk list" where
  "encode_all cfg st [] = []"
| "encode_all cfg st (s # ss) = snd (encode cfg s st) # encode_all cfg (fst (encode cfg s st)) ss"

text \<open>Modelled from the spec: the \<open>Encoder\<close> of \<open>stream_to_kvs.py\<close> at start
  (section 4.4): no frame accepted, no chunk emitted.
\<close>

definition initial_encoder :: encoder_state where
  "initial_encoder = \<lparr> since_keyframe = 0, last_seq = None \<rparr>"

text \<open>An encoder that has emitted a chunk has counted it.\<close>

definition encoder_ok :: "encoder_state \<Rightarrow> bool" where
  "encoder_ok st = (last_seq st = None \<or> 0 < since_keyframe st)"

subsection \<open>StreamSink\<close>

text \<open>Modelled from the spec: the two states of the \<open>StreamSink\<close> of \<open>stream_to_kvs.py\<close>
  (section 4.5).
\<close>

datatype connection = Disconnected | Connected

text \<open>Modelled from the spec: what the specification leaves open about the \<open>StreamSink\<close>
  of \<open>stream_to_kvs.py\<close> (sections 4.5 and 5): the first delay and the ceiling of the
  reconnection backoff, the capacity of the buffer, and what the overflow policy keeps
  of a buffer that has grown beyond the capacity.
\<close>

record sink_policy =
  initial_backoff :: nat
  max_backoff :: nat
  capacity :: nat
  overflow :: "EncodedChunk list \<Rightarrow> EncodedChunk list"

text \<open>Modelled from the spec: the state of the \<open>StreamSink\<close> of \<open>stream_to_kvs.py\<close>
  (section 4.5): the connection, the delay before the next connection attempt,
  whether it waits for a keyframe after a drop, the buffer, and the chunks transmitted
  and discarded so far.
\<close>

record sink_state =
  conn :: connection
  backoff :: nat
  awaiting_keyframe :: bool
  buffer :: "EncodedChunk list"
  transmitted :: "EncodedChunk list"
  discarded :: "EncodedChunk list"

text \<open>Modelled from the spec: what the \<open>StreamSink\<close> of \<open>stream_to_kvs.py\<close> meets
  (section 4.5): a chunk from the encoder, the outcome of a connection attempt, and
  the outcome of writing the chunk that is next (a partial write is continued, so the
  outcome is that of the whole chunk).
\<close>

datatype sink_event = Chunk_ready EncodedChunk | Connect_result bool | Write_result bool

text \<open>Modelled from the spec: the chunks of the \<open>StreamSink\<close> of \<open>stream_to_kvs.py\<close>
  that wait to be written (section 4.5): after a drop the sink resumes at the next
  keyframe.
\<close>

definition pending :: "sink_state \<Rightarrow> EncodedChunk list" where
  "pending st =
     (if awaiting_keyframe st then dropWhile (\<lambda>c. \<not> is_keyframe c) (buffer st) else buffer st)"

text \<open>Modelled from the spec: the chunks the \<open>StreamSink\<close> of \<open>stream_to_kvs.py\<close>
  passes over while it waits for a keyframe (section 4.5).
\<close>

definition skipped :: "sink_state \<Rightarrow> EncodedChunk list" where
  "skipped st =
     (if awaiting_keyframe st then takeWhile (\<lambda>c. \<not> is_keyframe c) (buffer st) else [])"

text \<open>Modelled from the spec: the state machine of the \<open>StreamSink\<close> of
  \<open>stream_to_kvs.py\<close> (section 4.5). Disconnected: a successful attempt connects, a
  failed one doubles the delay up to the ceiling and stays disconnected; the delay
  starts again from the first delay once connected. Connected: a
  completed write transmits the chunk, a write error disconnects and discards the chunk
  in flight. A chunk from the encoder joins the buffer under the overflow policy.
\<close>

fun sink_step :: "sink_policy \<Rightarrow> sink_event \<Rightarrow> sink_state \<Rightarrow> sink_state" where
  "sink_step pol (Chunk_ready c) st =
     st\<lparr> buffer := (if length (buffer st) < capacity pol then buffer st @ [c]
                     else overflow pol (buffer st @ [c])) \<rparr>"
| "sink_step pol (Connect_result ok) st =
     (case conn st of
        Connected \<Rightarrow> st
      | Disconnected \<Rightarrow>
          if ok then st\<lparr> conn := Connected, backoff := initial_backoff pol \<rparr>
          else st\<lparr> backoff := min (max_backoff pol) (2 * backoff st) \<rparr>)"
| "sink_step pol (Write_result ok) st =
     (case conn st of
        Disconnected \<Rightarrow> st
      | Connected \<Rightarrow>
          (case pending st of
             [] \<Rightarrow> st\<lparr> buffer := [], discarded := discarded st @ skipped st \<rparr>
           | c # rest \<Rightarrow>
               if ok then
                 st\<lparr> buffer := rest, transmitted := transmitted st @ [c],
                     awaiting_keyframe := False,
                     discarded := discarded st @ skipped st \<rparr>
               else
                 st\<lparr> conn := Disconnected, buffer := rest, awaiting_keyframe := True,
                     discarded := discarded st @ skipped st @ [c] \<rparr>))"

text \<open>Modelled from the spec: the \<open>StreamSink\<close> of \<open>stream_to_kvs.py\<close> over a
  sequence of events (section 4.5).
\<close>

fun run_sink :: "sink_policy \<Rightarrow> sink_state \<Rightarrow> sink_event list \<Rightarrow> sink_state" where
  "run_sink pol st [] = st"
| "run_sink pol st (e # es) = run_sink pol (sink_step pol e st) es"

text \<open>Modelled from the spec: the \<open>StreamSink\<close> of \<open>stream_to_kvs.py\<close> at start
  (section 4.6: it may start disconnected).
\<close>

definition initial_sink :: "sink_policy \<Rightarrow> sink_state" where
  "initial_sink pol =
     \<lparr> conn = Disconnected, backoff = initial_backoff pol, awaiting_keyframe = False,
       buffer = [], transmitted = [], discarded = [] \<rparr>"

text \<open>The chunks the encoder hands over among a sequence of events.\<close>

fun handed_over :: "sink_event list \<Rightarrow> EncodedChunk list" where
  "handed_over [] = []"
| "handed_over (Chunk_ready c # es) = c # handed_over es"
| "handed_over (_ # es) = handed_over es"

subsection \<open>PipelineOrchestrator\<close>













text \<open>
  Examples: a sink policy that keeps the newest chunks, the configuration of the
  host that sets no variable, a detection result for a frame, and a chunk.
\<close>

definition example_policy :: sink_policy where
  "example_policy =
     \<lparr> initial_backoff = 100, max_backoff = 1000, capacity = 4,
       overflow = (\<lambda>b. drop (length b - 4) b) \<rparr>"

definition default_config :: PipelineConfig where
  "default_config =
     \<lparr> camera_index = 0, frame_width = 1280, frame_height = 720,
       confidence_threshold = ''0.5'', detection_interval = 3, target_bitrate = 1500,
       keyframe_interval = 90, sink_host = ''0.0.0.0'', sink_port = 5000 \<rparr>"

definition short_gop_config :: PipelineConfig where
  "short_gop_config = default_config\<lparr> keyframe_interval := 3 \<rparr>"

definition result_for :: "nat \<Rightarrow> nat DetectionResult" where
  "result_for s = \<lparr> boxes = [s], result_seq = s, computed_at = s \<rparr>"

definition example_chunk :: "nat \<Rightarrow> bool \<Rightarrow> EncodedChunk" where
  "example_chunk s k = \<lparr> chunk_seq = s, is_keyframe = k \<rparr>"

definition example_events :: "nat scheduler_event list" where
  "example_events = [Frame_arrives 0, Frame_arrives 1, Detection_done (result_for 0), Frame_arrives 2]"

definition connected_sink :: sink_state where
  "connected_sink =
     \<lparr> conn = Connected, backoff = 100, awaiting_keyframe = False,
       buffer = [example_chunk 1 False, example_chunk 2 False],
       transmitted = [example_chunk 0 True], discarded = [] \<rparr>"





section \<open>Properties of the HLS player\<close>

lemma stop_hls: "hls (fst (stop p)) = (if hls p = Undefined then Undefined else Null)"
  by (cases "hls p") (simp_all add: stop_def Let_def split: option.splits prod.splits)

lemma stop_refreshTimer: "refreshTimer (fst (stop p)) = None"
  by (simp add: stop_def Let_def split: option.splits prod.splits)

lemma stop_playing: "playing (fst (stop p)) = False"
  by (simp add: stop_def playing_def Let_def split: option.splits prod.splits)

lemma stop_idempotent: "fst (stop (fst (stop p))) = fst (stop p)"
  by (cases "hls p") (simp_all add: stop_def Let_def split: option.splits prod.splits)

text \<open>
  Claim C10, as the code has it. After \<open>stop()\<close> the player holds no HLS.js handle:
  \<open>hls\<close> is \<open>null\<close> when a handle or \<open>null\<close> was there before, and it is still
  \<open>undefined\<close> when the field was never assigned (the constructor does not assign it,
  and \<open>stop()\<close> assigns it only under \<open>if (this.hls)\<close>). Whatever the state before,
  \<open>refreshTimer\<close> is \<open>null\<close>, the getter \<open>playing\<close> returns \<open>false\<close>, and a second
  \<open>stop()\<close> leaves the player as the first one left it.
\<close>

theorem stop_resets_player:
  "hls (fst (stop p)) = (if hls p = Undefined then Undefined else Null)
   \<and> (hls (fst (stop p)) = Null \<or> hls (fst (stop p)) = Undefined)
   \<and> refreshTimer (fst (stop p)) = None
   \<and> playing (fst (stop p)) = False
   \<and> fst (stop (fst (stop p))) = fst (stop p)"
  by (simp add: stop_hls stop_refreshTimer stop_playing stop_idempotent)

text \<open>
  Claim C10 as stated fails on a player that never played through HLS.js: \<open>stop()\<close> on
  a new player returns with \<open>hls\<close> still \<open>undefined\<close>, which is not \<open>null\<close>.
\<close>

theorem stop_hls_not_null_counterexample:
  "hls (fst (stop (new_KVSPlayer example_video no_options))) \<noteq> Null"
  by (simp add: stop_def new_KVSPlayer_def Let_def)

section \<open>Properties of the clip list\<close>

lemma js_includes_sublist: "js_includes s t = sublist t s"
  by (induction s) (auto simp: sublist_Cons_right)

lemma mset_sort_insert: "mset (sort_insert cmp x xs) = add_mset x (mset xs)"
  by (induction xs) auto

lemma mset_js_sort: "mset (js_sort cmp xs) = mset xs"
  by (induction xs) (auto simp: mset_sort_insert)

lemma set_sort_insert: "set (sort_insert cmp x xs) = insert x (set xs)"
  by (induction xs) auto

text \<open>A comparison function that orders by an integer rank \<open>k\<close> yields a list sorted by \<open>k\<close>.\<close>

lemma sorted_sort_insert:
  assumes "\<And>a b. (cmp a b \<le> 0) = (k a \<le> (k b :: int))"
  shows "sorted_wrt (\<lambda>a b. k a \<le> k b) xs \<Longrightarrow> sorted_wrt (\<lambda>a b. k a \<le> k b) (sort_insert cmp x xs)"
  using assms by (induction xs) (auto simp: set_sort_insert)

lemma sorted_js_sort:
  assumes "\<And>a b. (cmp a b \<le> 0) = (k a \<le> (k b :: int))"
  shows "sorted_wrt (\<lambda>a b. k a \<le> k b) (js_sort cmp xs)"
  by (induction xs) (auto intro: sorted_sort_insert[OF assms])

lemma sort_insert_zero: "(\<And>b. cmp x b = 0) \<Longrightarrow> sort_insert cmp x xs = x # xs"
  by (cases xs) simp_all

lemma js_sort_zero: "(\<And>a b. cmp a b = 0) \<Longrightarrow> js_sort cmp xs = xs"
  by (induction xs) (simp_all add: sort_insert_zero)

text \<open>The sort is stable: entries of equal rank keep their order.\<close>

lemma filter_sort_insert:
  assumes "\<And>a b. (cmp a b \<le> 0) = (k a \<le> (k b :: int))"
  shows "filter (\<lambda>v. k v = c) (sort_insert cmp x xs) =
           (if k x = c then x # filter (\<lambda>v. k v = c) xs else filter (\<lambda>v. k v = c) xs)"
  using assms by (induction xs) auto

lemma js_sort_stable:
  assumes "\<And>a b. (cmp a b \<le> 0) = (k a \<le> (k b :: int))"
  shows "filter (\<lambda>v. k v = c) (js_sort cmp xs) = filter (\<lambda>v. k v = c) xs"
  by (induction xs) (simp_all add: filter_sort_insert[OF assms])

lemma compare_newest:
  "(compare_videos ''newest'' a b \<le> 0) = (- last_modified a \<le> - last_modified b)"
  by (simp add: compare_videos_def)

lemma compare_oldest:
  "(compare_videos ''oldest'' a b \<le> 0) = (last_modified a \<le> last_modified b)"
  by (simp add: compare_videos_def)

lemma compare_size_desc:
  "(compare_videos ''size-desc'' a b \<le> 0) = (- size_bytes a \<le> - size_bytes b)"
  by (simp add: compare_videos_def)

lemma compare_size_asc:
  "(compare_videos ''size-asc'' a b \<le> 0) = (size_bytes a \<le> size_bytes b)"
  by (simp add: compare_videos_def)

lemma compare_other:
  "sortBy \<notin> {''newest'', ''oldest'', ''size-desc'', ''size-asc''} \<Longrightarrow> compare_videos sortBy a b = 0"
  by (simp add: compare_videos_def)

lemma filteredVideos_filterAndSortVideos:
  "filteredVideos (filterAndSortVideos s sortBy st) =
     js_sort (compare_videos sortBy) (filter (matches s) (videos st))"
  by (simp add: filterAndSortVideos_def Let_def matches_def[abs_def] js_includes_sublist)

lemma newest_sorted:
  "sorted_wrt (\<lambda>a b. last_modified b \<le> last_modified a)
     (filteredVideos (filterAndSortVideos s ''newest'' st))"
  using sorted_js_sort[of "compare_videos ''newest''" "\<lambda>v. - last_modified v", OF compare_newest]
  by (simp add: filteredVideos_filterAndSortVideos)

lemma oldest_sorted:
  "sorted_wrt (\<lambda>a b. last_modified a \<le> last_modified b)
     (filteredVideos (filterAndSortVideos s ''oldest'' st))"
  using sorted_js_sort[of "compare_videos ''oldest''" last_modified, OF compare_oldest]
  by (simp add: filteredVideos_filterAndSortVideos)

lemma size_desc_sorted:
  "sorted_wrt (\<lambda>a b. size_bytes b \<le> size_bytes a)
     (filteredVideos (filterAndSortVideos s ''size-desc'' st))"
  using sorted_js_sort[of "compare_videos ''size-desc''" "\<lambda>v. - size_bytes v", OF compare_size_desc]
  by (simp add: filteredVideos_filterAndSortVideos)

lemma size_asc_sorted:
  "sorted_wrt (\<lambda>a b. size_bytes a \<le> size_bytes b)
     (filteredVideos (filterAndSortVideos s ''size-asc'' st))"
  using sorted_js_sort[of "compare_videos ''size-asc''" size_bytes, OF compare_size_asc]
  by (simp add: filteredVideos_filterAndSortVideos)

lemma other_sort_value_unchanged:
  assumes "sortBy \<notin> {''newest'', ''oldest'', ''size-desc'', ''size-asc''}"
  shows "filteredVideos (filterAndSortVideos s sortBy st) = filter (matches s) (videos st)"
  using js_sort_zero[of "compare_videos sortBy"] compare_other[OF assms]
  by (simp add: filteredVideos_filterAndSortVideos)

text \<open>
  Claim C8. After \<open>filterAndSortVideos\<close>, \<open>state.filteredVideos\<close> holds exactly the
  entries of \<open>state.videos\<close> whose key in lower case contains the search text in lower
  case (each as often as it occurs there), and \<open>state.videos\<close> is untouched. Under
  \<open>newest\<close> the list descends by \<open>last_modified\<close>, under \<open>oldest\<close> it ascends; under
  \<open>size-desc\<close> it descends by size, under \<open>size-asc\<close> it ascends. Under any other sort
  value the list is the filtered list in its original order.
\<close>

theorem filterAndSortVideos_filters_and_orders:
  "mset (filteredVideos (filterAndSortVideos s sortBy st)) = mset (filter (matches s) (videos st))
   \<and> videos (filterAndSortVideos s sortBy st) = videos st
   \<and> sorted_wrt (\<lambda>a b. last_modified b \<le> last_modified a)
        (filteredVideos (filterAndSortVideos s ''newest'' st))
   \<and> sorted_wrt (\<lambda>a b. last_modified a \<le> last_modified b)
        (filteredVideos (filterAndSortVideos s ''oldest'' st))
   \<and> sorted_wrt (\<lambda>a b. size_bytes b \<le> size_bytes a)
        (filteredVideos (filterAndSortVideos s ''size-desc'' st))
   \<and> sorted_wrt (\<lambda>a b. size_bytes a \<le> size_bytes b)
        (filteredVideos (filterAndSortVideos s ''size-asc'' st))
   \<and> (sortBy \<notin> {''newest'', ''oldest'', ''size-desc'', ''size-asc''}
        \<longrightarrow> filteredVideos (filterAndSortVideos s sortBy st) = filter (matches s) (videos st))"
proof -
  have "mset (filteredVideos (filterAndSortVideos s sortBy st)) = mset (filter (matches s) (videos st))"
    by (simp add: filteredVideos_filterAndSortVideos mset_js_sort)
  moreover have "videos (filterAndSortVideos s sortBy st) = videos st"
    by (simp add: filterAndSortVideos_def Let_def)
  ultimately show ?thesis
    using newest_sorted oldest_sorted size_desc_sorted size_asc_sorted other_sort_value_unchanged
    by blast
qed

text \<open>
  The theorem at a concrete input: searching \<open>CAM\<close> under the unknown sort value
  \<open>name\<close> keeps the three matching clips in the order of the list.
\<close>

theorem filterAndSortVideos_witness:
  "''name'' \<notin> {''newest'', ''oldest'', ''size-desc'', ''size-asc''}
   \<and> map key (filter (matches ''CAM'') (videos example_app_state))
       = [''clips/Cam-A.mp4'', ''clips/cam-b.mp4'', ''clips/CAM-c.mp4'']
   \<and> map key (filteredVideos (filterAndSortVideos ''CAM'' ''name'' example_app_state))
       = [''clips/Cam-A.mp4'', ''clips/cam-b.mp4'', ''clips/CAM-c.mp4'']
   \<and> map key (filteredVideos (filterAndSortVideos ''CAM'' ''oldest'' example_app_state))
       = [''clips/cam-b.mp4'', ''clips/CAM-c.mp4'', ''clips/Cam-A.mp4'']"
proof -
  have n: "''name'' \<notin> {''newest'', ''oldest'', ''size-desc'', ''size-asc''}"
    by simp
  have f: "map key (filter (matches ''CAM'') (videos example_app_state))
       = [''clips/Cam-A.mp4'', ''clips/cam-b.mp4'', ''clips/CAM-c.mp4'']"
    by code_simp
  have o: "map key (filteredVideos (filterAndSortVideos ''CAM'' ''oldest'' example_app_state))
       = [''clips/cam-b.mp4'', ''clips/CAM-c.mp4'', ''clips/Cam-A.mp4'']"
    by code_simp
  from filterAndSortVideos_filters_and_orders[of "''CAM''" "''name''" example_app_state] n
  have "filteredVideos (filterAndSortVideos ''CAM'' ''name'' example_app_state)
          = filter (matches ''CAM'') (videos example_app_state)"
    by blast
  with n f o show ?thesis by simp
qed

section \<open>Properties of time-range playback\<close>

lemma catch_time_range_effects:
  "\<not> list_ex is_network_request (catch_time_range m)"
  "\<not> list_ex starts_playback (catch_time_range m)"
  "list_ex is_alert (catch_time_range m)"
  by (simp_all add: catch_time_range_def)

text \<open>
  Claim C9. Whenever the start or the end input is empty, the start is not strictly
  before the end, or the start lies after the clock's reading,
  \<open>startTimeRangePlayback\<close> returns with the script's state (the player included)
  as it was, its effects hold no network request and nothing that starts playback,
  and they hold an alert. The comparisons are JavaScript's: an input that is not a
  valid date is neither before nor after anything, so it counts as "not strictly
  before"; it is stopped by \<open>toISOString\<close>, whose error the \<open>catch\<close> block reports.
\<close>

theorem startTimeRangePlayback_rejects_bad_range:
  assumes "startTimeInput b = [] \<or> endTimeInput b = []
           \<or> \<not> js_lt (parse_Date b (startTimeInput b)) (parse_Date b (endTimeInput b))
           \<or> js_gt (parse_Date b (startTimeInput b)) (Some (now b))"
  shows "fst (startTimeRangePlayback b st) = st
       \<and> \<not> list_ex is_network_request (snd (startTimeRangePlayback b st))
       \<and> \<not> list_ex starts_playback (snd (startTimeRangePlayback b st))
       \<and> list_ex is_alert (snd (startTimeRangePlayback b st))"
proof (cases "startTimeInput b = [] \<or> endTimeInput b = []")
  case True
  then show ?thesis by (auto simp: startTimeRangePlayback_def Let_def)
next
  case False
  show ?thesis
  proof (cases "parse_Date b (startTimeInput b)")
    case None
    with False show ?thesis
      by (simp add: startTimeRangePlayback_def Let_def catch_time_range_effects)
  next
    case (Some s)
    note s = this
    show ?thesis
    proof (cases "parse_Date b (endTimeInput b)")
      case None
      with False s show ?thesis
        by (simp add: startTimeRangePlayback_def Let_def catch_time_range_effects)
    next
      case (Some e)
      with False s assms have "e \<le> s \<or> now b < s" by auto
      with False s Some show ?thesis
        by (auto simp: startTimeRangePlayback_def Let_def)
    qed
  qed
qed

text \<open>
  The theorem at three inputs, one for each check: an empty start, a start after the
  end, and a start after the clock's reading of 1000.
\<close>

theorem startTimeRangePlayback_rejects_bad_range_witness:
  "startTimeRangePlayback (example_browser [] ''200'') example_page
     = (example_page, [Alert Alert_both_times_required])
   \<and> startTimeRangePlayback (example_browser ''300'' ''200'') example_page
     = (example_page, [Alert Alert_end_must_follow_start])
   \<and> startTimeRangePlayback (example_browser ''1300'' ''2000'') example_page
     = (example_page, [Alert Alert_start_in_future])
   \<and> fst (startTimeRangePlayback (example_browser ''1300'' ''2000'') example_page) = example_page
   \<and> \<not> list_ex is_network_request
         (snd (startTimeRangePlayback (example_browser ''1300'' ''2000'') example_page))"
proof -
  have 1: "startTimeRangePlayback (example_browser [] ''200'') example_page
     = (example_page, [Alert Alert_both_times_required])"
    by (simp add: startTimeRangePlayback_def example_browser_def)
  have 2: "startTimeRangePlayback (example_browser ''300'' ''200'') example_page
     = (example_page, [Alert Alert_end_must_follow_start])"
    by code_simp
  have 3: "startTimeRangePlayback (example_browser ''1300'' ''2000'') example_page
     = (example_page, [Alert Alert_start_in_future])"
    by code_simp
  have h: "js_gt (parse_Date (example_browser ''1300'' ''2000'')
                    (startTimeInput (example_browser ''1300'' ''2000'')))
                 (Some (now (example_browser ''1300'' ''2000'')))"
    by code_simp
  from startTimeRangePlayback_rejects_bad_range[of "example_browser ''1300'' ''2000''" example_page] h
  have "fst (startTimeRangePlayback (example_browser ''1300'' ''2000'') example_page) = example_page
      \<and> \<not> list_ex is_network_request
            (snd (startTimeRangePlayback (example_browser ''1300'' ''2000'') example_page))"
    by blast
  with 1 2 3 show ?thesis by blast
qed

text \<open>
  The checks let a proper range through: with both inputs valid, the start before the
  end and not after the clock, the request to the API is made.
\<close>

lemma startTimeRangePlayback_requests_valid_range:
  assumes "parse_Date b (startTimeInput b) = Some s" "parse_Date b (endTimeInput b) = Some e"
    and "startTimeInput b \<noteq> []" "endTimeInput b \<noteq> []" "s < e" "s \<le> now b"
  shows "list_ex is_network_request (snd (startTimeRangePlayback b st))"
  using assms
  by (auto simp: startTimeRangePlayback_def request_time_range_def Let_def
           split: prod.splits fetch_result.splits response_json.splits option.splits)

section \<open>Properties of the launch scripts\<close>

text \<open>\<open>echo -e\<close> prints a text without a backslash as it is.\<close>

lemma echo_e_plain: "CHR 0x5C \<notin> set s \<Longrightarrow> echo_e esc s = s"
  by (induction s) auto

lemma start_streaming_model_missing:
  assumes "\<not> file_exists w (MODEL_PATH (configuration w))"
  shows "start_streaming w =
           \<lparr> printed = streaming_banner @
               [Red (''Error: Model file not found: ''
                       @ echo_e (echo_escapes w) (MODEL_PATH (configuration w))),
                Plain ''Please train the model first or specify MODEL_PATH environment variable''],
             final = Exit 1 \<rparr>"
  using assms by (simp add: start_streaming_def Let_def)

lemma start_streaming_python3_missing:
  assumes "file_exists w (MODEL_PATH (configuration w))" "\<not> command_exists w ''python3''"
  shows "start_streaming w =
           \<lparr> printed = streaming_banner @
               [Green (''[ok] Model found: ''
                         @ echo_e (echo_escapes w) (MODEL_PATH (configuration w))),
                Red ''Error: python3 not found''],
             final = Exit 1 \<rparr>"
  using assms by (simp add: start_streaming_def Let_def)

lemma docker_entrypoint_credentials_missing:
  assumes "getenv w ''AWS_ACCESS_KEY_ID'' = [] \<or> getenv w ''AWS_SECRET_ACCESS_KEY'' = []"
  shows "final (docker_entrypoint w) = Exit 1"
    and "Red ''Error: AWS credentials not set'' \<in> set (printed (docker_entrypoint w))"
  using assms by (auto simp: docker_entrypoint_def)

lemma docker_entrypoint_gstreamer_missing:
  assumes "getenv w ''AWS_ACCESS_KEY_ID'' \<noteq> []" "getenv w ''AWS_SECRET_ACCESS_KEY'' \<noteq> []"
    and "\<not> command_exists w ''gst-launch-1.0''"
  shows "final (docker_entrypoint w) = Exit 1"
    and "Red ''Error: GStreamer not found'' \<in> set (printed (docker_entrypoint w))"
  using assms by (auto simp: docker_entrypoint_def)

lemma docker_entrypoint_kvssink_missing:
  assumes "getenv w ''AWS_ACCESS_KEY_ID'' \<noteq> []" "getenv w ''AWS_SECRET_ACCESS_KEY'' \<noteq> []"
    and "command_exists w ''gst-launch-1.0''" "\<not> gst_inspect w ''kvssink''"
  shows "final (docker_entrypoint w) = Exit 1"
    and "Red ''Error: kvssink plugin not found'' \<in> set (printed (docker_entrypoint w))"
  using assms by (auto simp: docker_entrypoint_def)

lemma reports_failure_iff: "reports_failure r = (\<exists>l \<in> set (printed r). is_error_line l)"
  by (simp add: reports_failure_def list_ex_iff)

lemma start_streaming_failure:
  assumes "\<not> file_exists w (MODEL_PATH (configuration w)) \<or> \<not> command_exists w ''python3''"
  shows "reports_failure (start_streaming w) \<and> final (start_streaming w) = Exit 1"
proof (cases "file_exists w (MODEL_PATH (configuration w))")
  case False
  then show ?thesis
    by (simp add: start_streaming_model_missing reports_failure_def)
next
  case True
  with assms have "\<not> command_exists w ''python3''" by simp
  with True show ?thesis
    by (simp add: start_streaming_python3_missing reports_failure_def)
qed

lemma docker_entrypoint_failure:
  assumes "getenv w ''AWS_ACCESS_KEY_ID'' = [] \<or> getenv w ''AWS_SECRET_ACCESS_KEY'' = []
           \<or> \<not> command_exists w ''gst-launch-1.0'' \<or> \<not> gst_inspect w ''kvssink''"
  shows "reports_failure (docker_entrypoint w) \<and> final (docker_entrypoint w) = Exit 1"
proof -
  consider (cred) "getenv w ''AWS_ACCESS_KEY_ID'' = [] \<or> getenv w ''AWS_SECRET_ACCESS_KEY'' = []"
    | (gst) "getenv w ''AWS_ACCESS_KEY_ID'' \<noteq> []" "getenv w ''AWS_SECRET_ACCESS_KEY'' \<noteq> []"
            "\<not> command_exists w ''gst-launch-1.0''"
    | (kvs) "getenv w ''AWS_ACCESS_KEY_ID'' \<noteq> []" "getenv w ''AWS_SECRET_ACCESS_KEY'' \<noteq> []"
            "command_exists w ''gst-launch-1.0''" "\<not> gst_inspect w ''kvssink''"
    using assms by blast
  then show ?thesis
  proof cases
    case cred
    from docker_entrypoint_credentials_missing[OF cred] show ?thesis
      unfolding reports_failure_iff by force
  next
    case gst
    from docker_entrypoint_gstreamer_missing[OF gst] show ?thesis
      unfolding reports_failure_iff by force
  next
    case kvs
    from docker_entrypoint_kvssink_missing[OF kvs] show ?thesis
      unfolding reports_failure_iff by force
  qed
qed

text \<open>
  Claim C6. When the model file is missing or \<open>python3\<close> is not on the path,
  \<open>start_streaming.sh\<close> prints a red line starting \<open>Error:\<close> and ends with status 1
  without launching the streaming program; when a credential is unset or empty,
  \<open>gst-launch-1.0\<close> is not on the path or the \<open>kvssink\<close> plugin is absent,
  \<open>docker-entrypoint.sh\<close> does the same without launching the receiver. The line
  printed names the first check that failed; for the model file it ends with the path
  as \<open>echo -e\<close> prints it.
\<close>

theorem startup_failures_are_reported:
  "(\<not> file_exists w (MODEL_PATH (configuration w)) \<or> \<not> command_exists w ''python3''
      \<longrightarrow> reports_failure (start_streaming w)
          \<and> exit_status w (start_streaming w) = Some 1
          \<and> \<not> launches (final (start_streaming w)))
   \<and> (getenv w ''AWS_ACCESS_KEY_ID'' = [] \<or> getenv w ''AWS_SECRET_ACCESS_KEY'' = []
       \<or> \<not> command_exists w ''gst-launch-1.0'' \<or> \<not> gst_inspect w ''kvssink''
      \<longrightarrow> reports_failure (docker_entrypoint w)
          \<and> exit_status w (docker_entrypoint w) = Some 1
          \<and> \<not> launches (final (docker_entrypoint w)))
   \<and> (\<not> file_exists w (MODEL_PATH (configuration w))
      \<longrightarrow> Red (''Error: Model file not found: ''
                @ echo_e (echo_escapes w) (MODEL_PATH (configuration w)))
            \<in> set (printed (start_streaming w)))
   \<and> (file_exists w (MODEL_PATH (configuration w)) \<and> \<not> command_exists w ''python3''
      \<longrightarrow> Red ''Error: python3 not found'' \<in> set (printed (start_streaming w)))
   \<and> (getenv w ''AWS_ACCESS_KEY_ID'' = [] \<or> getenv w ''AWS_SECRET_ACCESS_KEY'' = []
      \<longrightarrow> Red ''Error: AWS credentials not set'' \<in> set (printed (docker_entrypoint w)))
   \<and> (getenv w ''AWS_ACCESS_KEY_ID'' \<noteq> [] \<and> getenv w ''AWS_SECRET_ACCESS_KEY'' \<noteq> []
       \<and> \<not> command_exists w ''gst-launch-1.0''
      \<longrightarrow> Red ''Error: GStreamer not found'' \<in> set (printed (docker_entrypoint w)))
   \<and> (getenv w ''AWS_ACCESS_KEY_ID'' \<noteq> [] \<and> getenv w ''AWS_SECRET_ACCESS_KEY'' \<noteq> []
       \<and> command_exists w ''gst-launch-1.0'' \<and> \<not> gst_inspect w ''kvssink''
      \<longrightarrow> Red ''Error: kvssink plugin not found'' \<in> set (printed (docker_entrypoint w)))"
proof -
  have a: "\<not> file_exists w (MODEL_PATH (configuration w)) \<or> \<not> command_exists w ''python3''
      \<longrightarrow> reports_failure (start_streaming w)
          \<and> exit_status w (start_streaming w) = Some 1
          \<and> \<not> launches (final (start_streaming w))"
    using start_streaming_failure[of w] by (simp add: exit_status_def)
  have b: "getenv w ''AWS_ACCESS_KEY_ID'' = [] \<or> getenv w ''AWS_SECRET_ACCESS_KEY'' = []
       \<or> \<not> command_exists w ''gst-launch-1.0'' \<or> \<not> gst_inspect w ''kvssink''
      \<longrightarrow> reports_failure (docker_entrypoint w)
          \<and> exit_status w (docker_entrypoint w) = Some 1
          \<and> \<not> launches (final (docker_entrypoint w))"
    using docker_entrypoint_failure[of w] by (simp add: exit_status_def)
  have c: "\<not> file_exists w (MODEL_PATH (configuration w))
      \<longrightarrow> Red (''Error: Model file not found: ''
                @ echo_e (echo_escapes w) (MODEL_PATH (configuration w)))
            \<in> set (printed (start_streaming w))"
    by (simp add: start_streaming_model_missing)
  have d: "file_exists w (MODEL_PATH (configuration w)) \<and> \<not> command_exists w ''python3''
      \<longrightarrow> Red ''Error: python3 not found'' \<in> set (printed (start_streaming w))"
    by (simp add: start_streaming_python3_missing)
  from a b c d docker_entrypoint_credentials_missing(2)[of w]
    docker_entrypoint_gstreamer_missing(2)[of w] docker_entrypoint_kvssink_missing(2)[of w]
  show ?thesis by blast
qed

lemma host_without_model_facts:
  "\<not> file_exists host_without_model (MODEL_PATH (configuration host_without_model))"
  by (simp add: host_without_model_def host_world_def)

lemma host_without_python3_facts:
  "file_exists host_without_python3 (MODEL_PATH (configuration host_without_python3))"
  "\<not> command_exists host_without_python3 ''python3''"
  by (simp_all add: host_without_python3_def host_world_def configuration_def
                     getenv_default_def getenv_def)

lemma container_without_credentials_facts:
  "getenv container_without_credentials ''AWS_ACCESS_KEY_ID'' = []"
  by (simp add: container_without_credentials_def container_world_def getenv_def)

lemma container_world_checks:
  "getenv container_world ''AWS_ACCESS_KEY_ID'' \<noteq> []"
  "getenv container_world ''AWS_SECRET_ACCESS_KEY'' \<noteq> []"
  "command_exists container_world ''gst-launch-1.0''"
  "gst_inspect container_world ''kvssink''"
  "first_parameter container_world = ''kvs''"
  by (simp_all add: container_world_def getenv_def container_env_def first_parameter_def)

lemma container_without_gstreamer_facts:
  "getenv container_without_gstreamer ''AWS_ACCESS_KEY_ID'' \<noteq> []"
  "getenv container_without_gstreamer ''AWS_SECRET_ACCESS_KEY'' \<noteq> []"
  "\<not> command_exists container_without_gstreamer ''gst-launch-1.0''"
  by (simp_all add: container_without_gstreamer_def container_world_def getenv_def container_env_def)

lemma container_without_kvssink_facts:
  "getenv container_without_kvssink ''AWS_ACCESS_KEY_ID'' \<noteq> []"
  "getenv container_without_kvssink ''AWS_SECRET_ACCESS_KEY'' \<noteq> []"
  "command_exists container_without_kvssink ''gst-launch-1.0''"
  "\<not> gst_inspect container_without_kvssink ''kvssink''"
  by (simp_all add: container_without_kvssink_def container_world_def getenv_def container_env_def)

text \<open>
  The theorem in five worlds, each lacking one precondition: the model file,
  \<open>python3\<close>, the credentials, GStreamer, the \<open>kvssink\<close> plugin.
\<close>

theorem startup_failures_are_reported_witness:
  "Red ''Error: Model file not found: ../../model/best.pt''
      \<in> set (printed (start_streaming host_without_model))
   \<and> exit_status host_without_model (start_streaming host_without_model) = Some 1
   \<and> Red ''Error: python3 not found'' \<in> set (printed (start_streaming host_without_python3))
   \<and> exit_status host_without_python3 (start_streaming host_without_python3) = Some 1
   \<and> Red ''Error: AWS credentials not set''
      \<in> set (printed (docker_entrypoint container_without_credentials))
   \<and> exit_status container_without_credentials (docker_entrypoint container_without_credentials) = Some 1
   \<and> Red ''Error: GStreamer not found''
      \<in> set (printed (docker_entrypoint container_without_gstreamer))
   \<and> exit_status container_without_gstreamer (docker_entrypoint container_without_gstreamer) = Some 1
   \<and> Red ''Error: kvssink plugin not found''
      \<in> set (printed (docker_entrypoint container_without_kvssink))
   \<and> exit_status container_without_kvssink (docker_entrypoint container_without_kvssink) = Some 1"
proof -
  have p: "echo_e (echo_escapes host_without_model) (MODEL_PATH (configuration host_without_model))
             = ''../../model/best.pt''"
    by (simp add: host_without_model_def host_world_def configuration_def
                  getenv_default_def getenv_def)
  from startup_failures_are_reported[of host_without_model] host_without_model_facts p
  have 1: "Red ''Error: Model file not found: ../../model/best.pt''
      \<in> set (printed (start_streaming host_without_model))
   \<and> exit_status host_without_model (start_streaming host_without_model) = Some 1"
    by simp
  from startup_failures_are_reported[of host_without_python3] host_without_python3_facts
  have 2: "Red ''Error: python3 not found'' \<in> set (printed (start_streaming host_without_python3))
   \<and> exit_status host_without_python3 (start_streaming host_without_python3) = Some 1"
    by blast
  from startup_failures_are_reported[of container_without_credentials]
    container_without_credentials_facts
  have 3: "Red ''Error: AWS credentials not set''
      \<in> set (printed (docker_entrypoint container_without_credentials))
   \<and> exit_status container_without_credentials (docker_entrypoint container_without_credentials) = Some 1"
    by blast
  from startup_failures_are_reported[of container_without_gstreamer]
    container_without_gstreamer_facts
  have 4: "Red ''Error: GStreamer not found''
      \<in> set (printed (docker_entrypoint container_without_gstreamer))
   \<and> exit_status container_without_gstreamer (docker_entrypoint container_without_gstreamer) = Some 1"
    by blast
  from startup_failures_are_reported[of container_without_kvssink]
    container_without_kvssink_facts
  have 5: "Red ''Error: kvssink plugin not found''
      \<in> set (printed (docker_entrypoint container_without_kvssink))
   \<and> exit_status container_without_kvssink (docker_entrypoint container_without_kvssink) = Some 1"
    by blast
  from 1 2 3 4 5 show ?thesis by blast
qed

lemma docker_entrypoint_kvs:
  assumes "getenv w ''AWS_ACCESS_KEY_ID'' \<noteq> []" "getenv w ''AWS_SECRET_ACCESS_KEY'' \<noteq> []"
    and "command_exists w ''gst-launch-1.0''" "gst_inspect w ''kvssink''"
    and "first_parameter w = ''kvs''"
  shows "final (docker_entrypoint w) = Launch (kvs_receiver_command w)"
  using assms by (simp add: docker_entrypoint_def Let_def)

lemma pipeline_elements_kvs_receiver:
  "pipeline_elements (kvs_receiver_command w) =
     [[''tcpclientsrc'', ''host='' @ container_TCP_HOST w, ''port='' @ getenv w ''TCP_PORT''],
      [''gdpdepay''],
      [''video/x-h264,format=avc,alignment=au''],
      [''h264parse''],
      [''kvssink'', ''stream-name='' @ getenv w ''STREAM_NAME'']]"
  by (simp add: pipeline_elements_def kvs_receiver_command_def)

text \<open>
  Claim C5, as the code has it. The receiver that \<open>docker-entrypoint.sh\<close> launches
  reads the socket through \<open>gdpdepay\<close>: what travels on the socket is a stream of
  GStreamer Data Protocol packets, and the H.264 stream (\<open>avc\<close>, aligned on access
  units) that goes to \<open>h264parse\<close> and \<open>kvssink\<close> is what \<open>gdpdepay\<close> unpacks from
  them.
\<close>

theorem receiver_unpacks_gdp:
  assumes "getenv w ''AWS_ACCESS_KEY_ID'' \<noteq> []" "getenv w ''AWS_SECRET_ACCESS_KEY'' \<noteq> []"
    and "command_exists w ''gst-launch-1.0''" "gst_inspect w ''kvssink''"
    and "first_parameter w = ''kvs''"
  shows "final (docker_entrypoint w) = Launch (kvs_receiver_command w)
       \<and> pipeline_elements (kvs_receiver_command w) =
           [[''tcpclientsrc'', ''host='' @ container_TCP_HOST w, ''port='' @ getenv w ''TCP_PORT''],
            [''gdpdepay''],
            [''video/x-h264,format=avc,alignment=au''],
            [''h264parse''],
            [''kvssink'', ''stream-name='' @ getenv w ''STREAM_NAME'']]
       \<and> socket_reader (kvs_receiver_command w) = Some [''gdpdepay'']
       \<and> \<not> reads_bare_h264 (kvs_receiver_command w)"
  using docker_entrypoint_kvs[OF assms]
  by (simp add: pipeline_elements_kvs_receiver socket_reader_def reads_bare_h264_def)

theorem receiver_unpacks_gdp_witness:
  "getenv container_world ''AWS_ACCESS_KEY_ID'' \<noteq> []
   \<and> getenv container_world ''AWS_SECRET_ACCESS_KEY'' \<noteq> []
   \<and> command_exists container_world ''gst-launch-1.0''
   \<and> gst_inspect container_world ''kvssink''
   \<and> first_parameter container_world = ''kvs''
   \<and> final (docker_entrypoint container_world) = Launch (kvs_receiver_command container_world)
   \<and> socket_reader (kvs_receiver_command container_world) = Some [''gdpdepay'']"
  using receiver_unpacks_gdp[OF container_world_checks] container_world_checks
  by simp

text \<open>
  Claim C5 as stated fails for the receiver of the example container: the element that
  reads the socket is neither the H.264 caps filter nor the H.264 parser.
\<close>

theorem bare_h264_on_socket_counterexample:
  "\<not> reads_bare_h264 (kvs_receiver_command container_world)"
  by (simp add: pipeline_elements_kvs_receiver socket_reader_def reads_bare_h264_def)


text \<open>
  \<open>start_streaming.sh\<close> looks for the model file and for \<open>python3\<close> only: once both
  are there it prints that GStreamer was found, whether or not \<open>gst-launch-1.0\<close> is on
  the host's path.
\<close>

lemma start_streaming_gstreamer_not_checked:
  assumes "file_exists w (MODEL_PATH (configuration w))" "command_exists w ''python3''"
  shows "Green ''[ok] GStreamer found'' \<in> set (printed (start_streaming w))"
  using assms by (simp add: start_streaming_def Let_def)

lemma configuration_defaults:
  assumes "\<And>v. getenv w v = []"
  shows "configuration w =
           \<lparr> MODEL_PATH = ''../../model/best.pt'', CAMERA_INDEX = ''0'', WIDTH = ''1280'',
             HEIGHT = ''720'', CONF_THRESHOLD = ''0.5'', TCP_HOST = ''0.0.0.0'',
             TCP_PORT = ''5000'', YOLO_INTERVAL = ''3'', BITRATE = ''1500'',
             KEYFRAME_INTERVAL = ''90'' \<rparr>"
  using assms by (simp add: configuration_def getenv_default_def)

section \<open>Properties of the streaming pipeline as specified\<close>

subsection \<open>DetectionScheduler\<close>

lemma run_scheduler_append:
  "run_scheduler cfg st (pre @ post) =
     run_scheduler cfg st pre @ run_scheduler cfg (scheduler_after cfg st pre) post"
proof (induction pre arbitrary: st)
  case Nil
  show ?case by simp
next
  case (Cons e pre)
  then show ?case by (cases e) simp_all
qed

lemma frame_seq_run_scheduler: "map frame_seq (run_scheduler cfg st es) = arrivals es"
proof (induction es arbitrary: st)
  case Nil
  show ?case by simp
next
  case (Cons e es)
  then show ?case by (cases e) (simp_all add: on_frame_def Let_def)
qed

lemma cache_scheduler_after:
  "cache (scheduler_after cfg st es) = newest (cache st) (completed es)"
proof (induction es arbitrary: st)
  case Nil
  show ?case by simp
next
  case (Cons e es)
  then show ?case
    by (cases e) (simp_all add: on_frame_def on_completion_def on_failure_def Let_def)
qed

lemma newest_None: "(newest c rs = None) = (c = None \<and> rs = [])"
  by (induction rs arbitrary: c) (auto split: option.splits)

lemma newest_Some:
  "newest c rs = Some r \<Longrightarrow>
     (c = Some r \<or> r \<in> set rs)
     \<and> (\<forall>x \<in> set rs. result_seq x \<le> result_seq r)
     \<and> (\<forall>y. c = Some y \<longrightarrow> result_seq y \<le> result_seq r)"
proof (induction rs arbitrary: c)
  case Nil
  then show ?case by simp
next
  case (Cons a rs)
  then show ?case
    by (fastforce split: option.splits if_splits)
qed

lemma frame_after_eq:
  "frame_after cfg pre s post =
     \<lparr> frame_seq = s, detection_invoked = (s mod detection_interval cfg = 0),
       overlay = newest None (completed pre) \<rparr>"
  by (simp add: frame_after_def run_scheduler_append on_frame_def Let_def
                cache_scheduler_after initial_scheduler_def)

text \<open>
  Claim C1, on the scheduler as specified. With a positive detection interval, the
  frame forwarded for a frame \<open>s\<close> carries \<open>s\<close>; inference was invoked on it exactly
  when \<open>s\<close> is a multiple of the interval; and whether or not it was, the overlay is
  the cache at that moment: empty when no inference has completed before, and
  otherwise a result completed before whose sequence number no result completed
  before exceeds. Every frame that arrives is forwarded, in the order of arrival. The
  interval that \<open>start_streaming.sh\<close> passes when \<open>YOLO_INTERVAL\<close> is not set is 3.
\<close>

theorem scheduler_detects_on_multiples:
  assumes "0 < detection_interval cfg"
  shows "frame_seq (frame_after cfg pre s post) = s
       \<and> detection_invoked (frame_after cfg pre s post) = (detection_interval cfg dvd s)
       \<and> overlay (frame_after cfg pre s post) = cache (scheduler_after cfg initial_scheduler pre)
       \<and> (overlay (frame_after cfg pre s post) = None) = (completed pre = [])
       \<and> (\<forall>r. overlay (frame_after cfg pre s post) = Some r \<longrightarrow>
              r \<in> set (completed pre) \<and> (\<forall>x \<in> set (completed pre). result_seq x \<le> result_seq r))
       \<and> map frame_seq (run_scheduler cfg initial_scheduler evs) = arrivals evs
       \<and> (getenv w ''YOLO_INTERVAL'' = [] \<longrightarrow> parse_nat (YOLO_INTERVAL (configuration w)) = Some 3)"
proof -
  have 1: "overlay (frame_after cfg pre s post) = cache (scheduler_after cfg initial_scheduler pre)"
    by (simp add: frame_after_eq cache_scheduler_after initial_scheduler_def)
  have 2: "\<forall>r. overlay (frame_after cfg pre s post) = Some r \<longrightarrow>
              r \<in> set (completed pre) \<and> (\<forall>x \<in> set (completed pre). result_seq x \<le> result_seq r)"
    using newest_Some[of None "completed pre"] by (auto simp: frame_after_eq)
  have 3: "getenv w ''YOLO_INTERVAL'' = [] \<longrightarrow> parse_nat (YOLO_INTERVAL (configuration w)) = Some 3"
    by (simp add: configuration_def getenv_default_def parse_nat_def)
  have 4: "detection_invoked (frame_after cfg pre s post) = (detection_interval cfg dvd s)"
    by (simp add: frame_after_eq mod_eq_0_iff_dvd)
  have 5: "(overlay (frame_after cfg pre s post) = None) = (completed pre = [])"
    by (simp add: frame_after_eq newest_None)
  have 6: "frame_seq (frame_after cfg pre s post) = s"
    by (simp add: frame_after_eq)
  from 1 2 3 4 5 6 frame_seq_run_scheduler[of cfg initial_scheduler evs]
  show ?thesis by blast
qed

text \<open>
  The theorem with the default interval of 3, after frames 0, 1 and 2 and the
  completion of the inference on frame 0: frame 3 is detected on, frame 4 is not, and
  both carry the result for frame 0.
\<close>

theorem scheduler_detects_on_multiples_witness:
  "0 < detection_interval default_config
   \<and> detection_invoked (frame_after default_config example_events 3 []) = True
   \<and> detection_invoked (frame_after default_config example_events 4 []) = False
   \<and> overlay (frame_after default_config example_events 3 []) = Some (result_for 0)
   \<and> overlay (frame_after default_config example_events 4 []) = Some (result_for 0)"
proof -
  have pos: "0 < detection_interval default_config"
    by (simp add: default_config_def)
  have c: "cache (scheduler_after default_config initial_scheduler example_events) = Some (result_for 0)"
    by (simp add: example_events_def initial_scheduler_def on_frame_def on_completion_def Let_def)
  have i: "detection_interval default_config = 3"
    by (simp add: default_config_def)
  from scheduler_detects_on_multiples[OF pos, of example_events 3 "[]" "[]" host_world]
  have "detection_invoked (frame_after default_config example_events 3 [])
          = (detection_interval default_config dvd 3)
      \<and> overlay (frame_after default_config example_events 3 [])
          = cache (scheduler_after default_config initial_scheduler example_events)"
    by blast
  with c i have 3: "detection_invoked (frame_after default_config example_events 3 []) = True
         \<and> overlay (frame_after default_config example_events 3 []) = Some (result_for 0)"
    by simp
  from scheduler_detects_on_multiples[OF pos, of example_events 4 "[]" "[]" host_world]
  have "detection_invoked (frame_after default_config example_events 4 [])
          = (detection_interval default_config dvd 4)
      \<and> overlay (frame_after default_config example_events 4 [])
          = cache (scheduler_after default_config initial_scheduler example_events)"
    by blast
  with c i have 4: "detection_invoked (frame_after default_config example_events 4 []) = False
         \<and> overlay (frame_after default_config example_events 4 []) = Some (result_for 0)"
    by simp
  from pos 3 4 show ?thesis by blast
qed

subsection \<open>Encoder\<close>

lemma encoder_ok_encode: "encoder_ok (fst (encode cfg s st))"
  by (simp add: encode_def encoder_ok_def Let_def)

lemma length_encode_all: "length (encode_all cfg st fs) = length fs"
  by (induction fs arbitrary: st) simp_all

lemma since_keyframe_bound:
  "0 < keyframe_interval cfg \<Longrightarrow> since_keyframe st \<le> keyframe_interval cfg \<Longrightarrow>
   since_keyframe (fst (encode cfg s st)) \<le> keyframe_interval cfg"
  by (auto simp: encode_def Let_def)

text \<open>
  From a state that has counted \<open>c\<close> chunks since the last keyframe, the next keyframe
  is among the first \<open>keyframe_interval - c + 1\<close> chunks.
\<close>

lemma first_keyframe:
  assumes "since_keyframe st \<le> keyframe_interval cfg"
    and "keyframe_interval cfg - since_keyframe st < length fs"
  shows "\<exists>j \<le> keyframe_interval cfg - since_keyframe st. is_keyframe (encode_all cfg st fs ! j)"
  using assms
proof (induction fs arbitrary: st)
  case Nil
  then show ?case by simp
next
  case (Cons f fs)
  show ?case
  proof (cases "is_keyframe (snd (encode cfg f st))")
    case True
    then show ?thesis by (intro exI[of _ 0]) simp
  next
    case False
    then have lt: "since_keyframe st < keyframe_interval cfg"
      and nxt: "since_keyframe (fst (encode cfg f st)) = Suc (since_keyframe st)"
      by (auto simp: encode_def Let_def split: if_splits)
    from lt nxt Cons.prems
    have "\<exists>j \<le> keyframe_interval cfg - since_keyframe (fst (encode cfg f st)).
            is_keyframe (encode_all cfg (fst (encode cfg f st)) fs ! j)"
      by (intro Cons.IH) auto
    then obtain j where j: "j \<le> keyframe_interval cfg - Suc (since_keyframe st)"
      "is_keyframe (encode_all cfg (fst (encode cfg f st)) fs ! j)"
      using nxt by auto
    with lt show ?thesis by (intro exI[of _ "Suc j"]) auto
  qed
qed

lemma window_has_keyframe:
  assumes "0 < keyframe_interval cfg"
    and "since_keyframe st \<le> keyframe_interval cfg" "encoder_ok st"
    and "i + keyframe_interval cfg \<le> length fs"
  shows "\<exists>j. i \<le> j \<and> j < i + keyframe_interval cfg \<and> is_keyframe (encode_all cfg st fs ! j)"
  using assms(2-)
proof (induction i arbitrary: st fs)
  case 0
  show ?case
  proof (cases "last_seq st")
    case None
    from 0 assms(1) obtain f fs' where fs: "fs = f # fs'" by (cases fs) auto
    with None have "is_keyframe (encode_all cfg st fs ! 0)" by (simp add: encode_def)
    with assms(1) show ?thesis by auto
  next
    case (Some l)
    with 0 have pos: "0 < since_keyframe st" by (simp add: encoder_ok_def)
    with 0 assms(1) have "keyframe_interval cfg - since_keyframe st < length fs" by simp
    from first_keyframe[OF 0(1) this]
    obtain j where j: "j \<le> keyframe_interval cfg - since_keyframe st"
      "is_keyframe (encode_all cfg st fs ! j)" by blast
    from j(1) pos assms(1) have "j < keyframe_interval cfg" by arith
    with j(2) show ?thesis by auto
  qed
next
  case (Suc i)
  then obtain f fs' where fs: "fs = f # fs'" by (cases fs) auto
  with Suc.prems have len: "i + keyframe_interval cfg \<le> length fs'" by simp
  from Suc.IH[OF since_keyframe_bound[OF assms(1) Suc.prems(1)] encoder_ok_encode len, of f]
  obtain j where "i \<le> j" "j < i + keyframe_interval cfg"
    "is_keyframe (encode_all cfg (fst (encode cfg f st)) fs' ! j)" by blast
  with fs show ?case by (intro exI[of _ "Suc j"]) simp
qed

text \<open>
  Claim C2, on the encoder as specified. With a positive keyframe interval, whatever
  frames the encoder is given from its start, every run of \<open>keyframe_interval\<close>
  consecutive chunks it emits holds a keyframe; one chunk is emitted per frame.
\<close>

theorem encoder_keyframe_in_every_window:
  assumes "0 < keyframe_interval cfg" "i + keyframe_interval cfg \<le> length frames"
  shows "length (encode_all cfg initial_encoder frames) = length frames
       \<and> (\<exists>j. i \<le> j \<and> j < i + keyframe_interval cfg
               \<and> is_keyframe (encode_all cfg initial_encoder frames ! j))"
  using window_has_keyframe[OF assms(1) _ _ assms(2), of initial_encoder]
  by (simp add: initial_encoder_def encoder_ok_def length_encode_all)

text \<open>
  The theorem with a keyframe interval of 3 on seven frames: the chunks 2, 3 and 4
  hold a keyframe, which is chunk 3.
\<close>

theorem encoder_keyframe_in_every_window_witness:
  "0 < keyframe_interval short_gop_config
   \<and> 2 + keyframe_interval short_gop_config \<le> length [0, 1, 2, 3, 4, 5, 6 :: nat]
   \<and> (\<exists>j. 2 \<le> j \<and> j < 2 + keyframe_interval short_gop_config
           \<and> is_keyframe (encode_all short_gop_config initial_encoder [0, 1, 2, 3, 4, 5, 6] ! j))
   \<and> map is_keyframe (encode_all short_gop_config initial_encoder [0, 1, 2, 3, 4, 5, 6])
       = [True, False, False, True, False, False, True]"
proof -
  have a: "0 < keyframe_interval short_gop_config"
    by (simp add: short_gop_config_def)
  have b: "2 + keyframe_interval short_gop_config \<le> length [0, 1, 2, 3, 4, 5, 6 :: nat]"
    by (simp add: short_gop_config_def)
  have c: "map is_keyframe (encode_all short_gop_config initial_encoder [0, 1, 2, 3, 4, 5, 6])
       = [True, False, False, True, False, False, True]"
    by (simp add: short_gop_config_def initial_encoder_def encode_def Let_def)
  from encoder_keyframe_in_every_window[OF a b] a b c show ?thesis by blast
qed

subsection \<open>StreamSink\<close>

lemma set_pending: "set (pending st) \<subseteq> set (buffer st)"
  by (auto simp: pending_def dest: set_dropWhileD)

lemma distinct_pending: "distinct (buffer st) \<Longrightarrow> distinct (pending st)"
  by (simp add: pending_def)

lemma connect_failure:
  assumes "conn st = Disconnected"
  shows "sink_step pol (Connect_result False) st
           = st\<lparr> backoff := min (max_backoff pol) (2 * backoff st) \<rparr>"
  using assms by simp

lemma repeated_failure:
  assumes "conn st = Disconnected" "backoff st \<le> max_backoff pol"
  shows "run_sink pol st (replicate n (Connect_result False))
           = st\<lparr> backoff := min (max_backoff pol) (2 ^ n * backoff st) \<rparr>"
  using assms
proof (induction n arbitrary: st)
  case 0
  then show ?case by (simp add: min_def)
next
  case (Suc n)
  let ?st = "st\<lparr> backoff := min (max_backoff pol) (2 * backoff st) \<rparr>"
  have "run_sink pol st (replicate (Suc n) (Connect_result False))
          = run_sink pol ?st (replicate n (Connect_result False))"
    using Suc.prems by simp
  also have "\<dots> = ?st\<lparr> backoff := min (max_backoff pol) (2 ^ n * backoff ?st) \<rparr>"
    using Suc.prems by (intro Suc.IH) simp_all
  also have "min (max_backoff pol) (2 ^ n * backoff ?st) = min (max_backoff pol) (2 ^ Suc n * backoff st)"
  proof (cases "2 * backoff st \<le> max_backoff pol")
    case True
    then show ?thesis by (simp add: min_def mult.assoc)
  next
    case False
    then have "max_backoff pol \<le> 2 * backoff st" by simp
    moreover have "max_backoff pol \<le> 2 ^ n * max_backoff pol" by simp
    moreover have "backoff st \<le> 2 ^ n * backoff st" by simp
    ultimately have "max_backoff pol \<le> 2 ^ n * max_backoff pol"
      "max_backoff pol \<le> 2 * (2 ^ n * backoff st)" by linarith+
    with False show ?thesis by (simp add: min_def)
  qed
  finally show ?case by simp
qed

lemma write_error:
  assumes "conn st = Connected" "pending st = c # rest"
  shows "sink_step pol (Write_result False) st
           = st\<lparr> conn := Disconnected, buffer := rest, awaiting_keyframe := True,
                 discarded := discarded st @ skipped st @ [c] \<rparr>"
  using assms by simp

lemma step_keeps_out:
  assumes sane: "\<And>b. set (overflow pol b) \<subseteq> set b"
    and "c \<notin> set (buffer st)" "c \<notin> set (transmitted st)" "e \<noteq> Chunk_ready c"
  shows "c \<notin> set (buffer (sink_step pol e st)) \<and> c \<notin> set (transmitted (sink_step pol e st))"
proof (cases e)
  case (Chunk_ready x)
  with assms(4) have "x \<noteq> c" by simp
  with Chunk_ready assms(2,3) sane[of "buffer st @ [x]"] show ?thesis by auto
next
  case (Connect_result ok)
  with assms(2,3) show ?thesis by (simp split: connection.splits)
next
  case (Write_result ok)
  show ?thesis
  proof (cases "pending st")
    case Nil
    with Write_result assms(2,3) show ?thesis by (simp split: connection.splits)
  next
    case (Cons x rest)
    with set_pending[of st] assms(2) have "x \<noteq> c" "c \<notin> set rest" by auto
    with Write_result Cons assms(2,3) show ?thesis by (simp split: connection.splits)
  qed
qed

lemma run_keeps_out:
  assumes sane: "\<And>b. set (overflow pol b) \<subseteq> set b"
  shows "c \<notin> set (buffer st) \<Longrightarrow> c \<notin> set (transmitted st) \<Longrightarrow> c \<notin> set (handed_over es) \<Longrightarrow>
         c \<notin> set (transmitted (run_sink pol st es))"
proof (induction es arbitrary: st)
  case Nil
  then show ?case by simp
next
  case (Cons e es)
  from Cons.prems(3) have ne: "e \<noteq> Chunk_ready c" and rest: "c \<notin> set (handed_over es)"
    by (cases e; auto)+
  from step_keeps_out[OF sane Cons.prems(1,2) ne]
  show ?case using Cons.IH[OF _ _ rest, of "sink_step pol e st"] by simp
qed

lemma never_retried:
  assumes sane: "\<And>b. set (overflow pol b) \<subseteq> set b"
    and "conn st = Connected" "pending st = c # rest" "distinct (buffer st)"
    and "c \<notin> set (transmitted st)" "c \<notin> set (handed_over es)"
  shows "c \<notin> set (transmitted (run_sink pol (sink_step pol (Write_result False) st) es))"
proof -
  from distinct_pending[OF assms(4)] assms(3) have "c \<notin> set rest" by simp
  with assms(5,6) show ?thesis
    unfolding write_error[OF assms(2,3)] by (intro run_keeps_out[OF sane]) simp_all
qed

lemma conn_changes:
  assumes "conn (sink_step pol e st) \<noteq> conn st"
  shows "(conn st = Disconnected \<and> e = Connect_result True)
       \<or> (conn st = Connected \<and> e = Write_result False \<and> pending st \<noteq> [])"
  using assms
  by (cases e) (auto split: connection.splits list.splits if_splits)

text \<open>
  Claim C3, on the sink as specified. Disconnected, a successful attempt connects; a
  failed one leaves the sink disconnected with its buffer and with the delay doubled up
  to the ceiling, so that \<open>n\<close> failures in a row from a delay \<open>d\<close> give the delay
  \<open>min ceiling (2^n * d)\<close>. Connected, an error in writing the chunk \<open>c\<close> that is next
  disconnects, transmits nothing and takes \<open>c\<close> out of the buffer into the discarded
  chunks; whatever happens afterwards, \<open>c\<close> is never transmitted unless the encoder
  hands it over again. The connection changes in no other way. The buffer is assumed to
  hold no chunk twice and the overflow policy to keep only chunks of the buffer.
\<close>

theorem sink_state_machine:
  assumes "\<forall>b. set (overflow pol b) \<subseteq> set b"
  shows "(conn st = Disconnected \<longrightarrow>
            conn (sink_step pol (Connect_result True) st) = Connected)
       \<and> (conn st = Disconnected \<longrightarrow>
            sink_step pol (Connect_result False) st
              = st\<lparr> backoff := min (max_backoff pol) (2 * backoff st) \<rparr>)
       \<and> (conn st = Disconnected \<and> backoff st \<le> max_backoff pol \<longrightarrow>
            run_sink pol st (replicate n (Connect_result False))
              = st\<lparr> backoff := min (max_backoff pol) (2 ^ n * backoff st) \<rparr>)
       \<and> (conn st = Connected \<and> pending st = c # rest \<longrightarrow>
            conn (sink_step pol (Write_result False) st) = Disconnected
            \<and> transmitted (sink_step pol (Write_result False) st) = transmitted st
            \<and> buffer (sink_step pol (Write_result False) st) = rest
            \<and> c \<in> set (discarded (sink_step pol (Write_result False) st)))
       \<and> (conn st = Connected \<and> pending st = c # rest \<and> distinct (buffer st)
            \<and> c \<notin> set (transmitted st) \<and> c \<notin> set (handed_over es) \<longrightarrow>
            c \<notin> set (buffer (sink_step pol (Write_result False) st))
            \<and> c \<notin> set (transmitted (run_sink pol (sink_step pol (Write_result False) st) es)))
       \<and> (conn (sink_step pol e st) \<noteq> conn st \<longrightarrow>
            (conn st = Disconnected \<and> e = Connect_result True)
            \<or> (conn st = Connected \<and> e = Write_result False \<and> pending st \<noteq> []))"
proof -
  from assms have sane: "\<And>b. set (overflow pol b) \<subseteq> set b" by blast
  have 1: "conn st = Disconnected \<longrightarrow> conn (sink_step pol (Connect_result True) st) = Connected"
    by simp
  have 2: "conn st = Disconnected \<longrightarrow>
            sink_step pol (Connect_result False) st
              = st\<lparr> backoff := min (max_backoff pol) (2 * backoff st) \<rparr>"
    by (simp add: connect_failure)
  have 3: "conn st = Disconnected \<and> backoff st \<le> max_backoff pol \<longrightarrow>
            run_sink pol st (replicate n (Connect_result False))
              = st\<lparr> backoff := min (max_backoff pol) (2 ^ n * backoff st) \<rparr>"
    using repeated_failure[of st pol n] by blast
  have 4: "conn st = Connected \<and> pending st = c # rest \<longrightarrow>
            conn (sink_step pol (Write_result False) st) = Disconnected
            \<and> transmitted (sink_step pol (Write_result False) st) = transmitted st
            \<and> buffer (sink_step pol (Write_result False) st) = rest
            \<and> c \<in> set (discarded (sink_step pol (Write_result False) st))"
    by simp
  have 5: "conn st = Connected \<and> pending st = c # rest \<and> distinct (buffer st)
            \<and> c \<notin> set (transmitted st) \<and> c \<notin> set (handed_over es) \<longrightarrow>
            c \<notin> set (buffer (sink_step pol (Write_result False) st))
            \<and> c \<notin> set (transmitted (run_sink pol (sink_step pol (Write_result False) st) es))"
  proof (intro impI conjI)
    assume h: "conn st = Connected \<and> pending st = c # rest \<and> distinct (buffer st)
            \<and> c \<notin> set (transmitted st) \<and> c \<notin> set (handed_over es)"
    from h distinct_pending[of st] have "c \<notin> set rest" by auto
    with h show "c \<notin> set (buffer (sink_step pol (Write_result False) st))" by simp
    from h show "c \<notin> set (transmitted (run_sink pol (sink_step pol (Write_result False) st) es))"
      by (intro never_retried[OF sane, of st c rest es]) simp_all
  qed
  have 6: "conn (sink_step pol e st) \<noteq> conn st \<longrightarrow>
            (conn st = Disconnected \<and> e = Connect_result True)
            \<or> (conn st = Connected \<and> e = Write_result False \<and> pending st \<noteq> [])"
    using conn_changes[of pol e st] by blast
  from 1 2 3 4 5 6 show ?thesis by blast
qed

lemma example_policy_sane: "\<forall>b. set (overflow example_policy b) \<subseteq> set b"
  by (auto simp: example_policy_def dest: in_set_dropD)

text \<open>
  The theorem on a connected sink that has transmitted chunk 0 and holds the chunks 1
  and 2: the write of chunk 1 fails; the sink is disconnected, chunk 1 is discarded,
  and after a failed and a successful attempt, a keyframe 3 and two writes, the chunks
  transmitted are 0 and 3. From the start, one failed attempt doubles the delay of 100.
\<close>

theorem sink_state_machine_witness:
  "(\<forall>b. set (overflow example_policy b) \<subseteq> set b)
   \<and> conn connected_sink = Connected
   \<and> pending connected_sink = example_chunk 1 False # [example_chunk 2 False]
   \<and> conn (sink_step example_policy (Write_result False) connected_sink) = Disconnected
   \<and> buffer (sink_step example_policy (Write_result False) connected_sink) = [example_chunk 2 False]
   \<and> transmitted (run_sink example_policy (sink_step example_policy (Write_result False) connected_sink)
        [Connect_result False, Connect_result True, Chunk_ready (example_chunk 3 True),
         Write_result True, Write_result True])
       = [example_chunk 0 True, example_chunk 3 True]
   \<and> backoff (sink_step example_policy (Connect_result False) (initial_sink example_policy)) = 200
   \<and> conn (sink_step example_policy (Connect_result True) (initial_sink example_policy)) = Connected"
proof -
  have a: "conn connected_sink = Connected"
    by (simp add: connected_sink_def)
  have b: "pending connected_sink = example_chunk 1 False # [example_chunk 2 False]"
    by (simp add: connected_sink_def pending_def)
  have d: "conn (initial_sink example_policy) = Disconnected"
    by (simp add: initial_sink_def)
  from sink_state_machine[OF example_policy_sane, where st = connected_sink
         and c = "example_chunk 1 False" and rest = "[example_chunk 2 False]"] a b
  have 1: "conn (sink_step example_policy (Write_result False) connected_sink) = Disconnected
         \<and> buffer (sink_step example_policy (Write_result False) connected_sink) = [example_chunk 2 False]"
    by blast
  from sink_state_machine[OF example_policy_sane, where st = "initial_sink example_policy"] d
  have 2: "conn (sink_step example_policy (Connect_result True) (initial_sink example_policy)) = Connected"
    by blast
  have 3: "backoff (sink_step example_policy (Connect_result False) (initial_sink example_policy)) = 200"
    by (simp add: initial_sink_def example_policy_def)
  have 4: "transmitted (run_sink example_policy (sink_step example_policy (Write_result False) connected_sink)
        [Connect_result False, Connect_result True, Chunk_ready (example_chunk 3 True),
         Write_result True, Write_result True])
       = [example_chunk 0 True, example_chunk 3 True]"
    by (simp add: connected_sink_def example_policy_def example_chunk_def pending_def skipped_def)
  from example_policy_sane a b 1 2 3 4 show ?thesis by blast
qed

subsection \<open>PipelineOrchestrator and the launcher\<close>











lemma connect_from_any_state: "conn (sink_step pol (Connect_result True) st) = Connected"
  by (cases "conn st") simp_all









lemma make_config_host_world: "make_config (configuration host_world) = Some default_config"
  by (simp add: make_config_def configuration_def getenv_default_def getenv_def host_world_def
                parse_nat_def default_config_def)




end
